theory Spec2Isabelle
  imports Complex_Main
begin

section \<open>Values exchanged with the backend and the platform\<close>

text \<open>
  The front end of Mini METARs consists of the component \<^verbatim>\<open>App\<close> (station list,
  global flags, window resizing) and one component \<^verbatim>\<open>Metar\<close> per station.
  JavaScript strings are modelled as \<open>string\<close> (one \<open>char\<close> per code unit, so
  \<open>length\<close> is \<^verbatim>\<open>.length\<close>), finite JavaScript numbers as rationals (every finite
  double is a rational; the arithmetic of \<^verbatim>\<open>getRandomInt\<close> is rounded to binary64,
  and the other sums, products and comparisons are those of the exact values), and a
  rejected promise as \<open>Inl\<close> of its rejection value.
\<close>

type_synonym error = string

text \<open>
  A \<^verbatim>\<open>Date\<close> object: its time value in milliseconds, or the invalid date whose
  time value is NaN. \<^verbatim>\<open>a > b\<close> on dates compares the time values, and every
  comparison with NaN is false.
\<close>

datatype Date = TimeValue int | InvalidDate

fun date_gt :: "Date \<Rightarrow> Date \<Rightarrow> bool" where
  "date_gt (TimeValue a) (TimeValue b) = (a > b)"
| "date_gt _ _ = False"

fun date_le :: "Date \<Rightarrow> Date \<Rightarrow> bool" where
  "date_le (TimeValue a) (TimeValue b) = (a \<le> b)"
| "date_le _ _ = False"

text \<open>
  The fields of the interfaces of \<^verbatim>\<open>tauri.ts\<close> that the components read. In
  \<^verbatim>\<open>MetarDto\<close> the field \<open>obsTime\<close> stands for \<^verbatim>\<open>new Date(res.metar.obsTime)\<close>.
\<close>

record Station =
  st_icaoId :: string
  st_faaId :: string

record MetarDto =
  obsTime :: Date
  rawOb :: string

text \<open>\<^verbatim>\<open>altimeter: { inHg: number; hPa: number }\<close> of \<^verbatim>\<open>FetchMetarResponse\<close>.\<close>

record AltimeterDto =
  dto_inHg :: rat
  dto_hPa :: rat

record FetchMetarResponse =
  metar :: MetarDto
  windString :: string
  res_altimeter :: AltimeterDto

record FetchAtisResponse =
  letter :: string
  texts :: "string list"

datatype Units = UnitsInHg | UnitsHPa

datatype WindowState = Normal | Maximized | FullScreen

record Window =
  win_state :: WindowState
  win_position :: "int \<times> int"
  win_size :: "int \<times> int"
  win_scaleFactor :: rat

text \<open>
  A property of a received object: absent (\<^verbatim>\<open>undefined\<close>), \<^verbatim>\<open>null\<close>, or a value.
  \<^verbatim>\<open>Profile\<close> declares \<^verbatim>\<open>window?: Window\<close>; a profile deserialised from JSON may also
  carry \<^verbatim>\<open>null\<close> there.
\<close>

datatype 'a property = Undefined | Null | Defined 'a

record Profile =
  p_name :: string
  p_stations :: "string list"
  p_showInput :: bool
  p_showTitlebar :: bool
  p_window :: "Window property"
  p_units :: Units
  p_hideAirportIfMissingAtis :: bool

section \<open>Component state\<close>

record MainUiStore =
  showScroll :: bool
  showInput :: bool
  showTitlebar :: bool
  units :: Units

text \<open>The signals and stores of \<^verbatim>\<open>App\<close>.\<close>

record App =
  inputId :: string
  ids :: "string list"
  mainUi :: MainUiStore

text \<open>
  The store \<^verbatim>\<open>createStore<{ inHg: number; hpa: number }>\<close> of a station. The setter
  of a store merges the properties of its argument into the store, so that
  \<^verbatim>\<open>setAltimeter(res.altimeter)\<close> writes \<^verbatim>\<open>inHg\<close> and adds a property \<^verbatim>\<open>hPa\<close>, which is
  absent before.
\<close>

record AltimeterStore =
  inHg :: rat
  hpa :: rat
  hPa :: "rat option"

text \<open>The signals and stores of one \<^verbatim>\<open>Metar\<close> component, and its prop \<open>requestedId\<close>.\<close>

record Metar =
  requestedId :: string
  icaoId :: string
  currentTimestamp :: "Date option"
  validId :: bool
  displayId :: string
  wind :: string
  rawMetar :: string
  altimeter :: AltimeterStore
  showFullMetar :: bool
  atisLetter :: string
  atisTexts :: "string list"
  showAtisTexts :: bool
  metarTimerHandle :: "nat option"
  letterTimerHandle :: "nat option"

text \<open>
  Calls that leave the front end, in the order they are issued: the log plugin, the
  backend commands and the window.
\<close>

datatype Level = Trace | Debug | Warn

datatype Call =
    LogCall Level
  | LookupStationCmd string
  | UpdateMetarCmd string
  | UpdateAtisCmd string
  | WindowInnerSize
  | WindowScaleFactor
  | WindowSetSize int rat

datatype TimerCallback = UpdateMetarTimer | UpdateAtisTimer

text \<open>
  The state the event loop works on: the \<^verbatim>\<open>App\<close>, the \<^verbatim>\<open>Metar\<close> component under
  consideration (\<open>'m\<close> is arbitrary for operations of \<^verbatim>\<open>App\<close> alone), the calls issued
  so far, the repeating timers that are armed (handle, callback, period in ms), the
  next timer handle, and the number of \<^verbatim>\<open>Math.random()\<close> draws made so far.
\<close>

record 'm world =
  app :: App
  mon :: 'm
  calls :: "Call list"
  timers :: "(nat \<times> TimerCallback \<times> int) list"
  nextHandle :: nat
  drawn :: nat

datatype OsType = Windows | Macos | Ios | Linux | Android

text \<open>
  What the platform answers: \<^verbatim>\<open>type()\<close>, \<^verbatim>\<open>window.scaleFactor()\<close>, the width of
  \<^verbatim>\<open>window.innerSize()\<close>, \<^verbatim>\<open>containerRef\<close> (\<open>None\<close> while undefined, else the
  \<^verbatim>\<open>offsetHeight\<close> of the rendered container as a function of the state that is
  rendered), the outputs of \<^verbatim>\<open>Math.random()\<close> by draw number, and \<^verbatim>\<open>Number::toString\<close>.
\<close>

record 'm env =
  os :: OsType
  scaleFactor :: rat
  innerWidth :: int
  containerRef :: "(App \<Rightarrow> 'm \<Rightarrow> int) option"
  random :: "nat \<Rightarrow> rat"
  numberToString :: "rat \<Rightarrow> string"

definition initialApp :: App where
  "initialApp =
     \<lparr> inputId = '''', ids = [],
       mainUi = \<lparr> showScroll = True, showInput = True, showTitlebar = True,
                  units = UnitsInHg \<rparr> \<rparr>"

definition initialMetar :: "string \<Rightarrow> Metar" where
  "initialMetar rid =
     \<lparr> requestedId = rid, icaoId = '''', currentTimestamp = None, validId = False,
       displayId = '''', wind = '''', rawMetar = '''',
       altimeter = \<lparr> inHg = 0, hpa = 0, hPa = None \<rparr>,
       showFullMetar = False, atisLetter = ''-'', atisTexts = [],
       showAtisTexts = False, metarTimerHandle = None, letterTimerHandle = None \<rparr>"

definition initialWorld :: "'m \<Rightarrow> 'm world" where
  "initialWorld m =
     \<lparr> app = initialApp, mon = m, calls = [], timers = [], nextHandle = 1, drawn = 0 \<rparr>"

definition issue :: "Call \<Rightarrow> 'm world \<Rightarrow> 'm world" where
  "issue c w = w\<lparr>calls := calls w @ [c]\<rparr>"

definition setMainUi :: "(MainUiStore \<Rightarrow> MainUiStore) \<Rightarrow> 'm world \<Rightarrow> 'm world" where
  "setMainUi f w = w\<lparr>app := (app w)\<lparr>mainUi := f (mainUi (app w))\<rparr>\<rparr>"

definition setIds :: "(string list \<Rightarrow> string list) \<Rightarrow> 'm world \<Rightarrow> 'm world" where
  "setIds f w = w\<lparr>app := (app w)\<lparr>ids := f (ids (app w))\<rparr>\<rparr>"

definition setInputId :: "string \<Rightarrow> 'm world \<Rightarrow> 'm world" where
  "setInputId s w = w\<lparr>app := (app w)\<lparr>inputId := s\<rparr>\<rparr>"

definition setMon :: "('m \<Rightarrow> 'm) \<Rightarrow> 'm world \<Rightarrow> 'm world" where
  "setMon f w = w\<lparr>mon := f (mon w)\<rparr>"

section \<open>Asynchronous functions\<close>

text \<open>
  A function that is called runs synchronously up to its first \<^verbatim>\<open>await\<close>; what
  follows each \<^verbatim>\<open>await\<close> is resumed by the event loop later. A function passed as
  \<^verbatim>\<open>fn\<close> is therefore the list of its segments: the head runs in the call
  \<^verbatim>\<open>fn()\<close>, and the tail is the pending rest of a promise that nobody awaits. A
  synchronous function is a list of one segment.
\<close>

type_synonym 'm callback = "('m world \<Rightarrow> 'm world) list"

fun invoke :: "'m callback \<Rightarrow> 'm world \<Rightarrow> 'm world \<times> 'm callback" where
  "invoke [] w = (w, [])"
| "invoke (f # ks) w = (f w, ks)"

text \<open>
  While the caller is suspended at an \<^verbatim>\<open>await\<close>, the event loop may resume any number
  of the pending segments; \<open>resume n\<close> resumes \<open>n\<close> of them (or all that are left).
\<close>

fun resume :: "nat \<Rightarrow> 'm callback \<Rightarrow> 'm world \<Rightarrow> 'm world \<times> 'm callback" where
  "resume 0 ks w = (w, ks)"
| "resume (Suc n) [] w = (w, [])"
| "resume (Suc n) (k # ks) w = resume n ks (k w)"

text \<open>The segments still pending when the caller has finished run afterwards.\<close>

definition settle :: "'m callback \<Rightarrow> 'm world \<Rightarrow> 'm world" where
  "settle ks w = fold (\<lambda>k v. k v) ks w"

text \<open>
  How many pending segments of \<^verbatim>\<open>fn\<close> are resumed during the first, second and third
  \<^verbatim>\<open>await\<close> of \<^verbatim>\<open>resetWindowHeight\<close>.
\<close>

type_synonym schedule = "nat \<times> nat \<times> nat"

section \<open>App.tsx\<close>

definition titlebarOffset :: "'m env \<Rightarrow> 'm world \<Rightarrow> int" where
  "titlebarOffset e w =
     (if showTitlebar (mainUi (app w)) then (if os e = Macos then 30 else 24) else 0)"

text \<open>
  \<^verbatim>\<open>resetWindowHeight\<close>: up to the first \<^verbatim>\<open>await\<close> (the call of
  \<^verbatim>\<open>window.innerSize()\<close>), and from there on. The container is measured in the
  expression that builds the argument of \<^verbatim>\<open>window.setSize\<close>, after the second
  \<^verbatim>\<open>await\<close>. The development logging (\<^verbatim>\<open>logIfDev\<close>) is left out.
\<close>

definition resetWindowHeight_begin :: "'m env \<Rightarrow> 'm world \<Rightarrow> 'm world" where
  "resetWindowHeight_begin e w =
     (case containerRef e of None \<Rightarrow> w | Some offsetHeight \<Rightarrow> issue WindowInnerSize w)"

definition resetWindowHeight_rest ::
  "'m env \<Rightarrow> schedule \<Rightarrow> 'm callback \<Rightarrow> 'm world \<Rightarrow> 'm world \<times> 'm callback" where
  "resetWindowHeight_rest e sched pend w =
     (case sched of (k1, k2, k3) \<Rightarrow>
       (case containerRef e of
          None \<Rightarrow> resume k1 pend w
        | Some offsetHeight \<Rightarrow>
            (case resume k1 pend w of (w1, p1) \<Rightarrow>
              (case resume k2 p1 (issue WindowScaleFactor w1) of (w2, p2) \<Rightarrow>
                 resume k3 p2
                   (issue (WindowSetSize (innerWidth e)
                       (of_int (offsetHeight (app w2) (mon w2) + titlebarOffset e w2)
                          * scaleFactor e)) w2)))))"

text \<open>
  \<^verbatim>\<open>applyFnAndResize(fn)\<close>: \<^verbatim>\<open>setMainUi("showScroll", false); fn();
  await resetWindowHeight(); setMainUi("showScroll", true)\<close>. The result of \<^verbatim>\<open>fn()\<close>
  is dropped. \<open>applyFnAndResize_begin\<close> is the part that runs in the call itself.
\<close>

definition applyFnAndResize_begin ::
  "'m env \<Rightarrow> 'm callback \<Rightarrow> 'm world \<Rightarrow> 'm world \<times> 'm callback" where
  "applyFnAndResize_begin e fn w =
     (case invoke fn (setMainUi (\<lambda>u. u\<lparr>showScroll := False\<rparr>) w) of
        (w1, pend) \<Rightarrow> (resetWindowHeight_begin e w1, pend))"

definition applyFnAndResize_rest ::
  "'m env \<Rightarrow> schedule \<Rightarrow> 'm callback \<Rightarrow> 'm world \<Rightarrow> 'm world" where
  "applyFnAndResize_rest e sched pend w =
     (case resetWindowHeight_rest e sched pend w of
        (w1, p1) \<Rightarrow> settle p1 (setMainUi (\<lambda>u. u\<lparr>showScroll := True\<rparr>) w1))"

definition applyFnAndResize ::
  "'m env \<Rightarrow> schedule \<Rightarrow> 'm callback \<Rightarrow> 'm world \<Rightarrow> 'm world" where
  "applyFnAndResize e sched fn w =
     (case applyFnAndResize_begin e fn w of
        (w1, pend) \<Rightarrow> applyFnAndResize_rest e sched pend w1)"

text \<open>
  \<^verbatim>\<open>Array.prototype.slice(start, end)\<close> for integer arguments: a negative index counts
  from the end, and both are clamped to the array.
\<close>

definition slice :: "'a list \<Rightarrow> int \<Rightarrow> int \<Rightarrow> 'a list" where
  "slice xs start fin =
     (let len = int (length xs);
          k = (if start < 0 then max (len + start) 0 else min start len);
          final = (if fin < 0 then max (len + fin) 0 else min fin len)
      in take (nat (final - k)) (drop (nat k) xs))"

text \<open>\<^verbatim>\<open>[...array.slice(0, index), ...array.slice(index + 1)]\<close>\<close>

definition removeIndex :: "'a list \<Rightarrow> int \<Rightarrow> 'a list" where
  "removeIndex array index =
     slice array 0 index @ slice array (index + 1) (int (length array))"

text \<open>The body of the batch in \<^verbatim>\<open>loadProfile\<close>, the same in both branches.\<close>

definition loadProfile_batch :: "Profile \<Rightarrow> 'm world \<Rightarrow> 'm world" where
  "loadProfile_batch p w =
     setMainUi (\<lambda>u. u\<lparr>units := p_units p\<rparr>)
       (setMainUi (\<lambda>u. u\<lparr>showTitlebar := p_showTitlebar p\<rparr>)
         (setMainUi (\<lambda>u. u\<lparr>showInput := p_showInput p\<rparr>)
           (setIds (\<lambda>xs. p_stations p) w)))"

definition loadProfile :: "'m env \<Rightarrow> schedule \<Rightarrow> Profile \<Rightarrow> 'm world \<Rightarrow> 'm world" where
  "loadProfile e sched p w =
     (if p_window p = Null then applyFnAndResize e sched [loadProfile_batch p] w
      else loadProfile_batch p w)"

text \<open>
  The callback of \<^verbatim>\<open>addStation\<close>. \<^verbatim>\<open>setIds(ids.length, inputId())\<close> writes the index
  one past the last element, which appends. \<^verbatim>\<open>e.preventDefault()\<close> has no effect on
  the state modelled here.
\<close>

definition addStation_fn :: "'m world \<Rightarrow> 'm world" where
  "addStation_fn w =
     (if length (inputId (app w)) \<ge> 3 \<and> length (inputId (app w)) \<le> 4
      then setInputId '''' (setIds (\<lambda>xs. xs @ [inputId (app w)]) w)
      else w)"

definition addStation :: "'m env \<Rightarrow> schedule \<Rightarrow> 'm world \<Rightarrow> 'm world" where
  "addStation e sched w = applyFnAndResize e sched [addStation_fn] w"

definition removeStation :: "'m env \<Rightarrow> schedule \<Rightarrow> int \<Rightarrow> 'm world \<Rightarrow> 'm world" where
  "removeStation e sched index w =
     applyFnAndResize e sched [setIds (\<lambda>xs. removeIndex xs index)] w"

text \<open>The handler of the shortcut \<^verbatim>\<open>CtrlOrCmd+D\<close>, and its callback.\<close>

definition toggleInput_fn :: "'m world \<Rightarrow> 'm world" where
  "toggleInput_fn w =
     (if length (ids (app w)) > 0
      then setMainUi (\<lambda>u. u\<lparr>showInput := \<not> showInput u\<rparr>) w
      else w)"

definition toggleInput :: "'m env \<Rightarrow> schedule \<Rightarrow> 'm world \<Rightarrow> 'm world" where
  "toggleInput e sched w = applyFnAndResize e sched [toggleInput_fn] w"

section \<open>Metar.tsx\<close>

text \<open>
  Arithmetic on numbers is binary64: the exact result of an operation is rounded to the
  nearest double, a tie going to the even significand. For a magnitude \<open>x\<close> below
  \<open>2^1024\<close>, \<open>quantum x\<close> is the distance between neighbouring doubles around \<open>x\<close>:
  \<open>2^(e - 52)\<close> in the binade \<open>2^e \<le> x < 2^(e + 1)\<close>, and \<open>2^(-1074)\<close> below
  \<open>2^(-1022)\<close>. \<open>binary64 x\<close> is the double that \<open>x\<close> rounds to; overflow to
  infinity is not modelled.
\<close>

definition roundEven :: "rat \<Rightarrow> int" where
  "roundEven q =
     (let f = floor q; d = q - of_int f
      in if d < 1 / 2 then f else if 1 / 2 < d then f + 1 else if even f then f else f + 1)"

fun upShift :: "nat \<Rightarrow> nat \<Rightarrow> rat \<Rightarrow> nat" where
  "upShift 0 k x = k"
| "upShift (Suc n) k x = (if 2 ^ 52 \<le> x * 2 ^ k then k else upShift n (Suc k) x)"

fun downShift :: "nat \<Rightarrow> nat \<Rightarrow> rat \<Rightarrow> nat" where
  "downShift 0 j x = j"
| "downShift (Suc n) j x = (if x / 2 ^ j < 2 ^ 53 then j else downShift n (Suc j) x)"

definition quantum :: "rat \<Rightarrow> rat" where
  "quantum x = (if x < 2 ^ 53 then 1 / 2 ^ upShift 1074 0 x else 2 ^ downShift 971 0 x)"

definition binary64 :: "rat \<Rightarrow> rat" where
  "binary64 x =
     (if x = 0 then 0
      else if x < 0 then - (of_int (roundEven (- x / quantum (- x))) * quantum (- x))
      else of_int (roundEven (x / quantum x)) * quantum x)"

text \<open>
  \<^verbatim>\<open>getRandomInt(min, max)\<close>:
  \<^verbatim>\<open>Math.floor(Math.random() * (maxFloored - minCeiled) + minCeiled)\<close>, each operation
  rounded. The function of the draw, and the call, which takes the next output of
  \<^verbatim>\<open>Math.random()\<close>.
\<close>

definition randomInt :: "rat \<Rightarrow> rat \<Rightarrow> rat \<Rightarrow> int" where
  "randomInt mn mx r =
     (let minCeiled = ceiling mn; maxFloored = floor mx
      in floor (binary64 (binary64 (r * binary64 (of_int maxFloored - of_int minCeiled))
                  + of_int minCeiled)))"

definition getRandomInt :: "'m env \<Rightarrow> rat \<Rightarrow> rat \<Rightarrow> 'm world \<Rightarrow> int \<times> 'm world" where
  "getRandomInt e mn mx w =
     (randomInt mn mx (random e (drawn w)), w\<lparr>drawn := Suc (drawn w)\<rparr>)"

text \<open>\<^verbatim>\<open>setInterval\<close> arms a repeating timer and returns its handle.\<close>

definition setInterval :: "TimerCallback \<Rightarrow> int \<Rightarrow> 'm world \<Rightarrow> nat \<times> 'm world" where
  "setInterval cb ms w =
     (nextHandle w,
      w\<lparr>timers := timers w @ [(nextHandle w, cb, ms)], nextHandle := Suc (nextHandle w)\<rparr>)"

definition clearInterval :: "nat \<Rightarrow> 'm world \<Rightarrow> 'm world" where
  "clearInterval h w = w\<lparr>timers := filter (\<lambda>t. fst t \<noteq> h) (timers w)\<rparr>"

text \<open>
  \<^verbatim>\<open>fetchAndUpdateStation\<close>, given how \<^verbatim>\<open>lookupStationCmd\<close> settles. The calls of the
  log plugin are taken to resolve.
\<close>

definition fetchAndUpdateStation :: "error + Station \<Rightarrow> Metar world \<Rightarrow> Metar world" where
  "fetchAndUpdateStation lookup w =
     (let w1 = issue (LogCall Debug) w;
          w2 = issue (LookupStationCmd (requestedId (mon w1))) w1
      in case lookup of
           Inr station \<Rightarrow>
             setMon (\<lambda>m. m\<lparr>icaoId := st_icaoId station,
                           displayId := (if st_faaId station \<noteq> ''-'' then st_faaId station
                                         else st_icaoId station),
                           validId := True\<rparr>) w2
         | Inl err \<Rightarrow>
             issue (LogCall Warn) (setMon (\<lambda>m. m\<lparr>displayId := requestedId m\<rparr>) w2))"

text \<open>\<^verbatim>\<open>setAltimeter(res.altimeter)\<close>: the properties of the argument are merged.\<close>

definition setAltimeter :: "AltimeterDto \<Rightarrow> AltimeterStore \<Rightarrow> AltimeterStore" where
  "setAltimeter a s = s\<lparr>inHg := dto_inHg a, hPa := Some (dto_hPa a)\<rparr>"

text \<open>The guard of \<^verbatim>\<open>updateMetar\<close>:
  \<^verbatim>\<open>currentTimestamp() === undefined || newTimestamp > currentTimestamp()!\<close>\<close>

definition isNewer :: "Date \<Rightarrow> Date option \<Rightarrow> bool" where
  "isNewer newTimestamp cur =
     (case cur of None \<Rightarrow> True | Some c \<Rightarrow> date_gt newTimestamp c)"

definition applyMetar :: "FetchMetarResponse \<Rightarrow> Metar \<Rightarrow> Metar" where
  "applyMetar res m =
     m\<lparr>currentTimestamp := Some (obsTime (metar res)),
       altimeter := setAltimeter (res_altimeter res) (altimeter m),
       wind := windString res,
       rawMetar := rawOb (metar res)\<rparr>"

text \<open>
  One run of \<^verbatim>\<open>updateMetar\<close> is suspended at each \<^verbatim>\<open>await\<close>: at the first \<^verbatim>\<open>trace\<close>,
  at \<^verbatim>\<open>updateMetarCmd\<close>, at the \<^verbatim>\<open>trace\<close> of the retrieved report, and, after the
  guard was evaluated, at the \<^verbatim>\<open>trace\<close> of the branch taken (or at \<^verbatim>\<open>warn\<close> in the
  handler). \<open>MetarRun\<close> is the point at which a run is suspended; the four writes follow
  the \<^verbatim>\<open>await\<close> of the first branch.
\<close>

datatype MetarRun =
    AwaitStart
  | AwaitFetch
  | AwaitRetrieved FetchMetarResponse
  | AwaitNew FetchMetarResponse
  | AwaitEnd

text \<open>The call \<^verbatim>\<open>updateMetar()\<close>: the code up to the first \<^verbatim>\<open>await\<close>.\<close>

definition updateMetar_call :: "Metar world \<Rightarrow> Metar world \<times> MetarRun option" where
  "updateMetar_call w =
     (if \<not> validId (mon w) then (w, None)
      else (issue (LogCall Trace) w, Some AwaitStart))"

text \<open>
  The event loop resumes a suspended run: the code from one \<^verbatim>\<open>await\<close> to the next, or
  to the end. \<open>result\<close> is how the \<^verbatim>\<open>updateMetarCmd\<close> of this run settles.
\<close>

fun updateMetar_resume ::
  "error + FetchMetarResponse \<Rightarrow> MetarRun \<Rightarrow> Metar world \<Rightarrow> Metar world \<times> MetarRun option" where
  "updateMetar_resume result AwaitStart w =
     (issue (UpdateMetarCmd (icaoId (mon w))) w, Some AwaitFetch)"
| "updateMetar_resume result AwaitFetch w =
     (case result of
        Inl err \<Rightarrow> (issue (LogCall Warn) w, Some AwaitEnd)
      | Inr res \<Rightarrow> (issue (LogCall Trace) w, Some (AwaitRetrieved res)))"
| "updateMetar_resume result (AwaitRetrieved res) w =
     (if isNewer (obsTime (metar res)) (currentTimestamp (mon w))
      then (issue (LogCall Trace) w, Some (AwaitNew res))
      else (issue (LogCall Trace) w, Some AwaitEnd))"
| "updateMetar_resume result (AwaitNew res) w = (setMon (applyMetar res) w, None)"
| "updateMetar_resume result AwaitEnd w = (w, None)"

text \<open>
  \<^verbatim>\<open>updateMetar\<close>, given how \<^verbatim>\<open>updateMetarCmd\<close> settles, as one step: the call and
  the resumptions of one run with no other step of the monitor between them.
\<close>

definition updateMetar :: "error + FetchMetarResponse \<Rightarrow> Metar world \<Rightarrow> Metar world" where
  "updateMetar result w =
     (if \<not> validId (mon w) then w
      else
        let w1 = issue (LogCall Trace) w;
            w2 = issue (UpdateMetarCmd (icaoId (mon w1))) w1
        in case result of
             Inl err \<Rightarrow> issue (LogCall Warn) w2
           | Inr res \<Rightarrow>
               (let w3 = issue (LogCall Trace) w2
                in if isNewer (obsTime (metar res)) (currentTimestamp (mon w3))
                   then setMon (applyMetar res) (issue (LogCall Trace) w3)
                   else issue (LogCall Trace) w3))"

text \<open>
  The asynchronous function that \<^verbatim>\<open>updateAtis\<close> passes to \<^verbatim>\<open>props.resizeAfterFn\<close>,
  given how \<^verbatim>\<open>updateAtisCmd\<close> settles: it awaits \<^verbatim>\<open>trace\<close>, then \<^verbatim>\<open>updateAtisCmd\<close>,
  then \<^verbatim>\<open>trace\<close> (or \<^verbatim>\<open>warn\<close>), and writes the letter and the texts last.
\<close>

definition updateAtis_fn :: "error + FetchAtisResponse \<Rightarrow> Metar callback" where
  "updateAtis_fn result =
     [ issue (LogCall Trace),
       (\<lambda>w. issue (UpdateAtisCmd (icaoId (mon w))) w),
       (case result of Inl err \<Rightarrow> issue (LogCall Warn) | Inr res \<Rightarrow> issue (LogCall Trace)),
       (case result of
          Inl err \<Rightarrow> (\<lambda>w. w)
        | Inr res \<Rightarrow> setMon (\<lambda>m. m\<lparr>atisLetter := letter res, atisTexts := texts res\<rparr>)) ]"

text \<open>
  \<^verbatim>\<open>updateAtis\<close> returns as soon as the call of \<^verbatim>\<open>props.resizeAfterFn\<close> returns
  (\<open>updateAtis_begin\<close>); the transaction it started ends later (\<open>updateAtis_rest\<close>).
\<close>

definition updateAtis_begin ::
  "Metar env \<Rightarrow> error + FetchAtisResponse \<Rightarrow> Metar world
     \<Rightarrow> Metar world \<times> Metar callback option" where
  "updateAtis_begin e result w =
     (if \<not> validId (mon w) then (w, None)
      else case applyFnAndResize_begin e (updateAtis_fn result) w of
             (w1, pend) \<Rightarrow> (w1, Some pend))"

definition updateAtis_rest ::
  "Metar env \<Rightarrow> schedule \<Rightarrow> Metar callback option \<Rightarrow> Metar world \<Rightarrow> Metar world" where
  "updateAtis_rest e sched pending w =
     (case pending of None \<Rightarrow> w | Some pend \<Rightarrow> applyFnAndResize_rest e sched pend w)"

definition updateAtis ::
  "Metar env \<Rightarrow> schedule \<Rightarrow> error + FetchAtisResponse \<Rightarrow> Metar world \<Rightarrow> Metar world" where
  "updateAtis e sched result w =
     (case updateAtis_begin e result w of
        (w1, pending) \<Rightarrow> updateAtis_rest e sched pending w1)"

text \<open>\<^verbatim>\<open>onMount\<close>, given how the three backend commands settle.\<close>

definition onMount ::
  "Metar env \<Rightarrow> schedule \<Rightarrow> error + Station \<Rightarrow> error + FetchMetarResponse
     \<Rightarrow> error + FetchAtisResponse \<Rightarrow> Metar world \<Rightarrow> Metar world" where
  "onMount e sched lookup metarResult atisResult w =
     (let w1 = fetchAndUpdateStation lookup w
      in if validId (mon w1) then
           (let w2 = updateMetar metarResult w1
            in case getRandomInt e 120 150 w2 of (n, w3) \<Rightarrow>
               case setInterval UpdateMetarTimer (1000 * n) w3 of (h, w4) \<Rightarrow>
               let w5 = setMon (\<lambda>m. m\<lparr>metarTimerHandle := Some h\<rparr>) w4
               in case updateAtis_begin e atisResult w5 of (w6, pending) \<Rightarrow>
                  case getRandomInt e 20 30 w6 of (n', w7) \<Rightarrow>
                  case setInterval UpdateAtisTimer (1000 * n') w7 of (h', w8) \<Rightarrow>
                  updateAtis_rest e sched pending
                    (setMon (\<lambda>m. m\<lparr>letterTimerHandle := Some h'\<rparr>) w8))
         else w1)"

definition onCleanup :: "Metar world \<Rightarrow> Metar world" where
  "onCleanup w =
     (let w1 = (case metarTimerHandle (mon w) of None \<Rightarrow> w | Some h \<Rightarrow> clearInterval h w)
      in case letterTimerHandle (mon w1) of None \<Rightarrow> w1 | Some h \<Rightarrow> clearInterval h w1)"

text \<open>The callbacks of \<^verbatim>\<open>toggleShowMetar\<close> and \<^verbatim>\<open>toggleShowAtisTexts\<close>.\<close>

definition toggleShowMetar_fn :: "Metar \<Rightarrow> Metar" where
  "toggleShowMetar_fn m =
     (if showFullMetar m then m\<lparr>showFullMetar := False\<rparr>
      else m\<lparr>showFullMetar := True, showAtisTexts := False\<rparr>)"

definition toggleShowMetar :: "Metar env \<Rightarrow> schedule \<Rightarrow> Metar world \<Rightarrow> Metar world" where
  "toggleShowMetar e sched w = applyFnAndResize e sched [setMon toggleShowMetar_fn] w"

definition toggleShowAtisTexts_fn :: "Metar \<Rightarrow> Metar" where
  "toggleShowAtisTexts_fn m =
     (if length (atisTexts m) = 0 then m\<lparr>showAtisTexts := False\<rparr>
      else if showAtisTexts m then m\<lparr>showAtisTexts := False\<rparr>
      else m\<lparr>showAtisTexts := True, showFullMetar := False\<rparr>)"

definition toggleShowAtisTexts :: "Metar env \<Rightarrow> schedule \<Rightarrow> Metar world \<Rightarrow> Metar world" where
  "toggleShowAtisTexts e sched w =
     applyFnAndResize e sched [setMon toggleShowAtisTexts_fn] w"

text \<open>
  \<^verbatim>\<open>Number.prototype.toFixed(f)\<close> as ECMA-262 defines it for a finite number: the sign,
  then for a magnitude below \<open>10^21\<close> the integer \<open>n\<close> with \<open>n / 10^f\<close> closest to the
  magnitude (the larger one of two), written in decimal with a point before the last
  \<open>f\<close> digits and padded with zeros to \<open>f + 1\<close> digits; a larger magnitude is printed
  by \<^verbatim>\<open>Number::toString\<close>, which is a parameter here.
\<close>

definition digitChar :: "nat \<Rightarrow> char" where
  "digitChar d = ''0123456789'' ! d"

fun decimal :: "nat \<Rightarrow> string" where
  "decimal n = (if n < 10 then [digitChar n] else decimal (n div 10) @ [digitChar (n mod 10)])"

declare decimal.simps [simp del]

definition toFixed :: "(rat \<Rightarrow> string) \<Rightarrow> nat \<Rightarrow> rat \<Rightarrow> string" where
  "toFixed toStr f x0 =
     (let s = (if x0 < 0 then ''-'' else '''');
          x = \<bar>x0\<bar>
      in if x \<ge> 10 ^ 21 then s @ toStr x
         else
           let n = nat (floor (x * 10 ^ f + 1 / 2));
               m = decimal n
           in if f \<noteq> 0 then
                (let m' = (if length m \<le> f
                           then replicate (f + 1 - length m) (CHR ''0'') @ m else m);
                     k = length m'
                 in s @ take (k - f) m' @ ''.'' @ drop (k - f) m')
              else s @ m)"

text \<open>The memo \<^verbatim>\<open>altimeterString\<close>.\<close>

definition altimeterString :: "Metar env \<Rightarrow> Metar world \<Rightarrow> string" where
  "altimeterString e w =
     (if units (mainUi (app w)) = UnitsInHg
      then (if inHg (altimeter (mon w)) = 0 then ''''
            else toFixed (numberToString e) 2 (inHg (altimeter (mon w))))
      else (if hpa (altimeter (mon w)) = 0 then ''''
            else toFixed (numberToString e) 0 (hpa (altimeter (mon w)))))"

section \<open>Runs of one station monitor\<close>

text \<open>
  What happens to a mounted \<^verbatim>\<open>Metar\<close> component: a tick of the timer armed with
  \<^verbatim>\<open>updateMetar\<close> or \<^verbatim>\<open>updateAtis\<close> (with how the fetch settles), and a click on the
  altimeter or wind (\<^verbatim>\<open>toggleShowMetar\<close>) or on the letter (\<^verbatim>\<open>toggleShowAtisTexts\<close>).
\<close>

datatype MetarEvent =
    MetarTick "error + FetchMetarResponse"
  | AtisTick schedule "error + FetchAtisResponse"
  | ClickMetar schedule
  | ClickAtis schedule

fun handle :: "Metar env \<Rightarrow> MetarEvent \<Rightarrow> Metar world \<Rightarrow> Metar world" where
  "handle e (MetarTick result) w = updateMetar result w"
| "handle e (AtisTick sched result) w = updateAtis e sched result w"
| "handle e (ClickMetar sched) w = toggleShowMetar e sched w"
| "handle e (ClickAtis sched) w = toggleShowAtisTexts e sched w"

fun run :: "Metar env \<Rightarrow> MetarEvent list \<Rightarrow> Metar world \<Rightarrow> Metar world" where
  "run e [] w = w"
| "run e (ev # evs) w = run e evs (handle e ev w)"

text \<open>
  The METAR fetch results that reach one monitor in runs that follow one another, each
  run ending before the next one starts.
\<close>

fun deliver :: "(error + FetchMetarResponse) list \<Rightarrow> Metar world \<Rightarrow> Metar world" where
  "deliver [] w = w"
| "deliver (result # results) w = deliver results (updateMetar result w)"

text \<open>
  The event loop of one monitor. The timer armed with \<^verbatim>\<open>updateMetar\<close> fires whether or
  not an earlier run has finished, so several runs can be suspended at once; each goes
  on when the promise it awaits settles. \<open>TimerFires result\<close> starts a run whose fetch
  will settle with \<open>result\<close>; \<open>Resumes i\<close> resumes the suspended run at position \<open>i\<close>
  (the oldest has position 0), and a run that has finished leaves the list.
\<close>

type_synonym suspended = "(error + FetchMetarResponse) \<times> MetarRun"

datatype LoopEvent = TimerFires "error + FetchMetarResponse" | Resumes nat

fun resumeAt :: "nat \<Rightarrow> Metar world \<Rightarrow> suspended list \<Rightarrow> Metar world \<times> suspended list" where
  "resumeAt i w [] = (w, [])"
| "resumeAt 0 w ((result, r) # pool) =
     (case updateMetar_resume result r w of
        (w', None) \<Rightarrow> (w', pool)
      | (w', Some r') \<Rightarrow> (w', (result, r') # pool))"
| "resumeAt (Suc i) w (p # pool) =
     (case resumeAt i w pool of (w', pool') \<Rightarrow> (w', p # pool'))"

fun loopStep :: "LoopEvent \<Rightarrow> Metar world \<times> suspended list \<Rightarrow> Metar world \<times> suspended list" where
  "loopStep (TimerFires result) (w, pool) =
     (case updateMetar_call w of
        (w', None) \<Rightarrow> (w', pool)
      | (w', Some r) \<Rightarrow> (w', pool @ [(result, r)]))"
| "loopStep (Resumes i) (w, pool) = resumeAt i w pool"

fun loop :: "LoopEvent list \<Rightarrow> Metar world \<times> suspended list \<Rightarrow> Metar world \<times> suspended list" where
  "loop [] s = s"
| "loop (ev # evs) s = loop evs (loopStep ev s)"

text \<open>The number of resize requests (\<^verbatim>\<open>window.setSize\<close>) among calls.\<close>

fun isSetSize :: "Call \<Rightarrow> bool" where
  "isSetSize (WindowSetSize width height) = True"
| "isSetSize _ = False"

definition resizeCalls :: "Call list \<Rightarrow> nat" where
  "resizeCalls cs = length (filter isSetSize cs)"

fun isFetch :: "Call \<Rightarrow> bool" where
  "isFetch (UpdateMetarCmd i) = True"
| "isFetch (UpdateAtisCmd i) = True"
| "isFetch _ = False"

section \<open>The wording of the specification\<close>

text \<open>
  The specification accepts a station id by its trimmed length. \<^verbatim>\<open>trim\<close> removes white
  space and line terminators at both ends; of these, the characters below are the ones
  a \<open>char\<close> can hold.
\<close>

definition isWhiteSpace :: "char \<Rightarrow> bool" where
  "isWhiteSpace c =
     (c \<in> set [CHR 0x09, CHR 0x0A, CHR 0x0B, CHR 0x0C, CHR 0x0D, CHR '' '', CHR 0xA0])"

definition spec_trim :: "string \<Rightarrow> string" where
  "spec_trim s = rev (dropWhile isWhiteSpace (rev (dropWhile isWhiteSpace s)))"

definition spec_accepted :: "string \<Rightarrow> bool" where
  "spec_accepted s = (length (spec_trim s) = 3 \<or> length (spec_trim s) = 4)"

section \<open>Auxiliary definitions\<close>

text \<open>
  What \<^verbatim>\<open>resetWindowHeight\<close> does to a state when nothing else runs during its
  \<^verbatim>\<open>await\<close>s: with a container, the three window calls, the last one with the height
  measured in that state.
\<close>

definition resized :: "'m env \<Rightarrow> 'm world \<Rightarrow> 'm world" where
  "resized e w =
     (case containerRef e of
        None \<Rightarrow> w
      | Some offsetHeight \<Rightarrow>
          issue (WindowSetSize (innerWidth e)
                   (of_int (offsetHeight (app w) (mon w) + titlebarOffset e w) * scaleFactor e))
            (issue WindowScaleFactor (issue WindowInnerSize w)))"

text \<open>
  A platform and a state for the examples: Windows at scale factor 1.5, a container of
  20 pixels per station, and the stations KJFK, KLAX and KORD.
\<close>

definition exampleEnv :: "'m env" where
  "exampleEnv =
     \<lparr> os = Windows, scaleFactor = 3 / 2, innerWidth = 300,
       containerRef = Some (\<lambda>a m. 20 * int (length (ids a))),
       random = (\<lambda>n. if n < 2 then 0 else 1 / 2),
       numberToString = (\<lambda>x. '''') \<rparr>"

definition exampleWorld :: "unit world" where
  "exampleWorld =
     (initialWorld ())\<lparr>app := initialApp\<lparr>ids := [''KJFK'', ''KLAX'', ''KORD'']\<rparr>\<rparr>"

text \<open>A profile as \<^verbatim>\<open>Profile\<close> declares it, with the optional \<^verbatim>\<open>window\<close> left out.\<close>

definition exampleProfile :: Profile where
  "exampleProfile =
     \<lparr> p_name = ''evening'', p_stations = [''KSFO'', ''KOAK''], p_showInput = False,
       p_showTitlebar = True, p_window = Undefined, p_units = UnitsHPa,
       p_hideAirportIfMissingAtis = False \<rparr>"

text \<open>
  A station whose lookup has succeeded and that has not yet accepted a report, and a
  report observed at time \<open>t\<close>.
\<close>

definition exampleReport :: "int \<Rightarrow> FetchMetarResponse" where
  "exampleReport t =
     \<lparr> metar = \<lparr> obsTime = TimeValue t, rawOb = ''KJFK 041651Z 27010KT 10SM A2992'' \<rparr>,
       windString = ''27010KT'',
       res_altimeter = \<lparr> dto_inHg = 2992 / 100, dto_hPa = 1013 \<rparr> \<rparr>"

definition exampleStation :: "Metar world" where
  "exampleStation =
     initialWorld ((initialMetar ''JFK'')\<lparr>icaoId := ''KJFK'', displayId := ''JFK'',
       validId := True\<rparr>)"

text \<open>A step \<open>k\<close> keeps the observation \<open>g\<close> of the state.\<close>

definition keeps :: "('w \<Rightarrow> 'a) \<Rightarrow> ('w \<Rightarrow> 'w) \<Rightarrow> bool" where
  "keeps g k = (\<forall>v. g (k v) = g v)"

text \<open>Observations of a monitor's state: the two panel flags, and their exclusion.\<close>

definition panels :: "Metar world \<Rightarrow> bool \<times> bool" where
  "panels w = (showFullMetar (mon w), showAtisTexts (mon w))"

definition exclusive :: "Metar world \<Rightarrow> bool" where
  "exclusive w = (\<not> (showFullMetar (mon w) \<and> showAtisTexts (mon w)))"

text \<open>
  The statements
  \<^verbatim>\<open>setMetarTimerHandle(setInterval(updateMetar, 1000 * getRandomInt(120, 150)))\<close> and
  \<^verbatim>\<open>setLetterTimerHandle(setInterval(updateAtis, 1000 * getRandomInt(20, 30)))\<close> of
  \<^verbatim>\<open>onMount\<close>, each as one step.
\<close>

definition armMetarTimer :: "Metar env \<Rightarrow> Metar world \<Rightarrow> Metar world" where
  "armMetarTimer e w =
     setMon (\<lambda>m. m\<lparr>metarTimerHandle := Some (nextHandle w)\<rparr>)
       (w\<lparr>drawn := Suc (drawn w),
          timers := timers w
            @ [(nextHandle w, UpdateMetarTimer, 1000 * randomInt 120 150 (random e (drawn w)))],
          nextHandle := Suc (nextHandle w)\<rparr>)"

definition armLetterTimer :: "Metar env \<Rightarrow> Metar world \<Rightarrow> Metar world" where
  "armLetterTimer e w =
     setMon (\<lambda>m. m\<lparr>letterTimerHandle := Some (nextHandle w)\<rparr>)
       (w\<lparr>drawn := Suc (drawn w),
          timers := timers w
            @ [(nextHandle w, UpdateAtisTimer, 1000 * randomInt 20 30 (random e (drawn w)))],
          nextHandle := Suc (nextHandle w)\<rparr>)"

text \<open>
  What a station that never became valid cannot change: its validity, the armed timers
  and the fetches requested. And the timers, the next handle and the number of draws.
\<close>

definition idle :: "Metar world \<Rightarrow> bool \<times> (nat \<times> TimerCallback \<times> int) list \<times> Call list" where
  "idle w = (validId (mon w), timers w, filter isFetch (calls w))"


text \<open>A step that only adds calls to the ones issued.\<close>

definition extends :: "('m world \<Rightarrow> 'm world) \<Rightarrow> bool" where
  "extends k = (\<forall>v. \<exists>rest. calls (k v) = calls v @ rest)"

text \<open>
  The height that \<^verbatim>\<open>resetWindowHeight\<close> requests when it measures the state \<open>w\<close>.
\<close>

definition requestedHeight :: "'m env \<Rightarrow> 'm world \<Rightarrow> rat option" where
  "requestedHeight e w =
     map_option
       (\<lambda>offsetHeight. of_int (offsetHeight (app w) (mon w) + titlebarOffset e w) * scaleFactor e)
       (containerRef e)"

text \<open>Decimal digits, the number a string of digits denotes, and the padding of \<open>toFixed\<close>.\<close>

definition isDigit :: "char \<Rightarrow> bool" where
  "isDigit c = (c \<in> set ''0123456789'')"

fun digitValue :: "string \<Rightarrow> nat" where
  "digitValue [] = 0"
| "digitValue (c # cs) = (of_char c - 48) * 10 ^ length cs + digitValue cs"

definition padded :: "nat \<Rightarrow> string \<Rightarrow> string" where
  "padded f m = (if length m \<le> f then replicate (f + 1 - length m) (CHR ''0'') @ m else m)"

text \<open>
  More examples: an advisory and a lookup result for KJFK; the station mounted with
  them from its initial state; a station with altimeter 29.921 inHg and 1013 hPa in
  the store; a platform whose container grows by 15 pixels per advisory text shown; and
  a valid station that shows the one text of advisory A.
\<close>

definition exampleAtis :: FetchAtisResponse where
  "exampleAtis = \<lparr> letter = ''B'', texts = [''JFK ATIS INFO B 1651Z'', ''DEP RWY 31L''] \<rparr>"

definition exampleLookup :: Station where
  "exampleLookup = \<lparr> st_icaoId = ''KJFK'', st_faaId = ''JFK'' \<rparr>"

definition exampleMounted :: "Metar world" where
  "exampleMounted =
     onMount exampleEnv (0, 0, 0) (Inr exampleLookup) (Inr (exampleReport 2000))
       (Inr exampleAtis) (initialWorld (initialMetar ''JFK''))"

definition exampleReading :: "Units \<Rightarrow> Metar world" where
  "exampleReading u =
     setMainUi (\<lambda>s. s\<lparr>units := u\<rparr>)
       (setMon (\<lambda>m. m\<lparr>altimeter := \<lparr>inHg = 29921 / 1000, hpa = 1013, hPa = None\<rparr>\<rparr>)
          exampleStation)"

definition panelEnv :: "Metar env" where
  "panelEnv =
     exampleEnv\<lparr>containerRef :=
       Some (\<lambda>a m. 20 + (if showAtisTexts m then 15 * int (length (atisTexts m)) else 0))\<rparr>"

definition exampleListening :: "Metar world" where
  "exampleListening =
     setMon (\<lambda>m. m\<lparr>atisLetter := ''A'', atisTexts := [''JFK ATIS INFO A 1551Z''],
                   showAtisTexts := True\<rparr>) exampleStation"

text \<open>The field \<^verbatim>\<open>hpa\<close> of the altimeter store, which \<^verbatim>\<open>altimeterString\<close> reads in hPa.\<close>

definition hectopascals :: "Metar world \<Rightarrow> rat" where
  "hectopascals w = hpa (altimeter (mon w))"

text \<open>
  A station that shows the report of time 2000, and the order in which two runs of
  \<^verbatim>\<open>updateMetar\<close> go on when the second timer tick comes while the fetch of the first
  run is still under way: the first run (its fetch will bring the report of time 2500)
  starts and requests its fetch; the second run (report of time 3000) starts, requests
  its fetch and gets the report; then the first run gets its report; then each run
  logs the report, evaluates the guard and logs the branch, the second run before the
  first.
\<close>

definition exampleShown :: "Metar world" where
  "exampleShown = updateMetar (Inr (exampleReport 2000)) exampleStation"

definition exampleOverlap :: "LoopEvent list" where
  "exampleOverlap =
     [TimerFires (Inr (exampleReport 2500)), Resumes 0,
      TimerFires (Inr (exampleReport 3000)), Resumes (Suc 0), Resumes (Suc 0),
      Resumes 0, Resumes (Suc 0), Resumes 0]"

section \<open>The resize transaction with a synchronous callback\<close>

lemma resume_Nil [simp]: "resume n [] w = (w, [])"
  by (cases n) simp_all

lemma applyFnAndResize_sync:
  "applyFnAndResize e sched [f] w =
     setMainUi (\<lambda>u. u\<lparr>showScroll := True\<rparr>)
       (resized e (f (setMainUi (\<lambda>u. u\<lparr>showScroll := False\<rparr>) w)))"
  by (cases sched)
     (simp add: applyFnAndResize_def applyFnAndResize_begin_def applyFnAndResize_rest_def
        resetWindowHeight_begin_def resetWindowHeight_rest_def resized_def settle_def
        issue_def titlebarOffset_def split: option.splits prod.splits)

lemma app_resized [simp]: "app (resized e w) = app w"
  by (simp add: resized_def issue_def split: option.splits)

lemma mon_resized [simp]: "mon (resized e w) = mon w"
  by (simp add: resized_def issue_def split: option.splits)

lemma calls_resized:
  "calls (resized e w) =
     (case containerRef e of
        None \<Rightarrow> calls w
      | Some offsetHeight \<Rightarrow>
          calls w @ [WindowInnerSize, WindowScaleFactor,
            WindowSetSize (innerWidth e)
              (of_int (offsetHeight (app w) (mon w) + titlebarOffset e w) * scaleFactor e)])"
  by (simp add: resized_def issue_def titlebarOffset_def split: option.splits)

section \<open>Removing a station\<close>

lemma slice_prefix: "0 \<le> i \<Longrightarrow> i \<le> int (length xs) \<Longrightarrow> slice xs 0 i = take (nat i) xs"
  by (simp add: slice_def Let_def min_def)

lemma slice_suffix: "0 \<le> k \<Longrightarrow> slice xs k (int (length xs)) = drop (nat k) xs"
  by (simp add: slice_def Let_def min_def)

lemma removeIndex_in_range:
  "0 \<le> i \<Longrightarrow> i < int (length xs) \<Longrightarrow>
     removeIndex xs i = take (nat i) xs @ drop (Suc (nat i)) xs"
  by (simp add: removeIndex_def slice_prefix slice_suffix nat_add_distrib)

lemma ids_removeStation:
  "ids (app (removeStation e sched i w)) = removeIndex (ids (app w)) i"
  by (simp add: removeStation_def applyFnAndResize_sync setMainUi_def setIds_def)

text \<open>
  C9. For an index \<open>i\<close> within the station list, \<^verbatim>\<open>removeStation(i)\<close> leaves the
  elements before position \<open>i\<close> followed by the elements after it, in their order:
  the list is one shorter, an element before \<open>i\<close> keeps its position and a later one
  moves down by one.
\<close>

theorem removeStation_removes_index:
  assumes "0 \<le> i" and "i < int (length (ids (app w)))"
  shows "ids (app (removeStation e sched i w))
           = take (nat i) (ids (app w)) @ drop (Suc (nat i)) (ids (app w))
       \<and> length (ids (app (removeStation e sched i w))) = length (ids (app w)) - 1
       \<and> (\<forall>j < length (ids (app w)) - 1.
            ids (app (removeStation e sched i w)) ! j
              = ids (app w) ! (if j < nat i then j else Suc j))"
proof -
  let ?xs = "ids (app w)"
  have eq: "ids (app (removeStation e sched i w)) = take (nat i) ?xs @ drop (Suc (nat i)) ?xs"
    using assms by (simp add: ids_removeStation removeIndex_in_range)
  have len: "length (take (nat i) ?xs @ drop (Suc (nat i)) ?xs) = length ?xs - 1"
    using assms by (simp add: min_def)
  have nth: "(take (nat i) ?xs @ drop (Suc (nat i)) ?xs) ! j
               = ?xs ! (if j < nat i then j else Suc j)"
    if "j < length ?xs - 1" for j
    using that assms by (auto simp: nth_append min_def)
  show ?thesis using eq len nth by simp
qed

text \<open>Removing index 1 from KJFK, KLAX, KORD leaves KJFK, KORD.\<close>

theorem removeStation_removes_index_witness:
  "ids (app (removeStation exampleEnv (0, 0, 0) 1 exampleWorld)) = [''KJFK'', ''KORD'']
   \<and> removeIndex [''KJFK'', ''KLAX'', ''KORD''] 1 = [''KJFK'', ''KORD'']"
  using removeStation_removes_index [of 1 exampleWorld exampleEnv "(0, 0, 0)"]
  by (simp add: exampleWorld_def initialWorld_def initialApp_def removeIndex_def slice_def)

lemma app_applyFnAndResize_sync:
  "app (applyFnAndResize e sched [f] w) =
     (app (f (setMainUi (\<lambda>u. u\<lparr>showScroll := False\<rparr>) w)))
       \<lparr>mainUi := (mainUi (app (f (setMainUi (\<lambda>u. u\<lparr>showScroll := False\<rparr>) w))))
                     \<lparr>showScroll := True\<rparr>\<rparr>"
  by (simp add: applyFnAndResize_sync setMainUi_def)

lemma mon_applyFnAndResize_sync:
  "mon (applyFnAndResize e sched [f] w) = mon (f (setMainUi (\<lambda>u. u\<lparr>showScroll := False\<rparr>) w))"
  by (simp add: applyFnAndResize_sync setMainUi_def)

lemma calls_applyFnAndResize_sync:
  "calls (applyFnAndResize e sched [f] w) =
     calls (resized e (f (setMainUi (\<lambda>u. u\<lparr>showScroll := False\<rparr>) w)))"
  by (simp add: applyFnAndResize_sync setMainUi_def)

section \<open>The shortcut that toggles the input panel\<close>

lemma toggleInput_with_stations:
  "ids (app w) \<noteq> [] \<Longrightarrow>
     showInput (mainUi (app (toggleInput e sched w))) = (\<not> showInput (mainUi (app w)))"
  by (simp add: toggleInput_def app_applyFnAndResize_sync toggleInput_fn_def setMainUi_def)

text \<open>
  C10. While the station list is empty, the handler of \<^verbatim>\<open>CtrlOrCmd+D\<close> leaves
  \<open>showInput\<close>, \<open>showTitlebar\<close>, \<open>units\<close>, the station list, the input and the
  monitor as they are, and ends with \<open>showScroll\<close> set, as it is whenever no resize
  transaction is under way; from such a state the whole \<^verbatim>\<open>App\<close> state is unchanged.
\<close>

theorem toggleInput_gated_on_stations:
  assumes "ids (app w) = []"
  shows "showInput (mainUi (app (toggleInput e sched w))) = showInput (mainUi (app w))
       \<and> showTitlebar (mainUi (app (toggleInput e sched w))) = showTitlebar (mainUi (app w))
       \<and> units (mainUi (app (toggleInput e sched w))) = units (mainUi (app w))
       \<and> showScroll (mainUi (app (toggleInput e sched w)))
       \<and> ids (app (toggleInput e sched w)) = []
       \<and> inputId (app (toggleInput e sched w)) = inputId (app w)
       \<and> mon (toggleInput e sched w) = mon w
       \<and> (showScroll (mainUi (app w)) \<longrightarrow> app (toggleInput e sched w) = app w)"
  using assms
  by (simp add: toggleInput_def app_applyFnAndResize_sync mon_applyFnAndResize_sync
        toggleInput_fn_def setMainUi_def)

text \<open>In the initial state, which has no station, the shortcut leaves the input panel shown.\<close>

theorem toggleInput_gated_on_stations_witness:
  "ids (app (initialWorld ())) = []
   \<and> showInput (mainUi (app (toggleInput exampleEnv (0, 0, 0) (initialWorld ()))))
   \<and> app (toggleInput exampleEnv (0, 0, 0) (initialWorld ())) = app (initialWorld ())"
  using toggleInput_gated_on_stations [of "initialWorld ()" exampleEnv "(0, 0, 0)"]
  by (simp add: initialWorld_def initialApp_def)

section \<open>Adding a station\<close>

lemma ids_addStation:
  "ids (app (addStation e sched w)) =
     (if length (inputId (app w)) = 3 \<or> length (inputId (app w)) = 4
      then ids (app w) @ [inputId (app w)] else ids (app w))"
  by (auto simp: addStation_def app_applyFnAndResize_sync addStation_fn_def setMainUi_def
        setIds_def setInputId_def)

text \<open>
  C3, as the code has it. \<^verbatim>\<open>addStation\<close> accepts the input exactly when its length,
  as typed and not trimmed, is 3 or 4: then the id is appended (the list is one longer
  and the id is its last element); otherwise the station list is unchanged.
\<close>

theorem addStation_accepts_by_length:
  "(length (inputId (app w)) = 3 \<or> length (inputId (app w)) = 4 \<longrightarrow>
      ids (app (addStation e sched w)) = ids (app w) @ [inputId (app w)]
      \<and> length (ids (app (addStation e sched w))) = length (ids (app w)) + 1
      \<and> last (ids (app (addStation e sched w))) = inputId (app w))
   \<and> (length (inputId (app w)) \<noteq> 3 \<and> length (inputId (app w)) \<noteq> 4 \<longrightarrow>
      ids (app (addStation e sched w)) = ids (app w))"
  by (simp add: ids_addStation)

text \<open>An input of length 4 is appended, one of length 5 is not.\<close>

theorem addStation_accepts_by_length_witness:
  "length (inputId (app (setInputId ''KSFO'' exampleWorld))) = 4
   \<and> ids (app (addStation exampleEnv (0, 0, 0) (setInputId ''KSFO'' exampleWorld)))
       = [''KJFK'', ''KLAX'', ''KORD'', ''KSFO'']
   \<and> length (inputId (app (setInputId ''KSFOX'' exampleWorld))) = 5
   \<and> ids (app (addStation exampleEnv (0, 0, 0) (setInputId ''KSFOX'' exampleWorld)))
       = [''KJFK'', ''KLAX'', ''KORD'']"
  using addStation_accepts_by_length [of "setInputId ''KSFO'' exampleWorld" exampleEnv "(0, 0, 0)"]
    addStation_accepts_by_length [of "setInputId ''KSFOX'' exampleWorld" exampleEnv "(0, 0, 0)"]
  by (simp add: setInputId_def exampleWorld_def initialWorld_def initialApp_def)

text \<open>
  C3 as stated fails in both directions. A blank followed by \<^verbatim>\<open>AB\<close> has trimmed
  length 2 and is appended; \<^verbatim>\<open>KSFO\<close> followed by a blank has trimmed length 4 and is
  not.
\<close>

theorem addStation_trimmed_length_counterexample:
  "\<not> spec_accepted '' AB''
   \<and> ids (app (addStation exampleEnv (0, 0, 0) (setInputId '' AB'' exampleWorld)))
       = ids (app exampleWorld) @ ['' AB'']
   \<and> spec_accepted ''KSFO ''
   \<and> ids (app (addStation exampleEnv (0, 0, 0) (setInputId ''KSFO '' exampleWorld)))
       = ids (app exampleWorld)"
  by (simp add: ids_addStation setInputId_def spec_accepted_def spec_trim_def isWhiteSpace_def)

section \<open>Loading a profile\<close>

lemma calls_loadProfile:
  "calls (loadProfile e sched p w) =
     (if p_window p = Null
      then calls (resized e (loadProfile_batch p (setMainUi (\<lambda>u. u\<lparr>showScroll := False\<rparr>) w)))
      else calls w)"
  by (simp add: loadProfile_def calls_applyFnAndResize_sync loadProfile_batch_def setMainUi_def
        setIds_def)

lemma app_loadProfile:
  "ids (app (loadProfile e sched p w)) = p_stations p
   \<and> showInput (mainUi (app (loadProfile e sched p w))) = p_showInput p
   \<and> showTitlebar (mainUi (app (loadProfile e sched p w))) = p_showTitlebar p
   \<and> units (mainUi (app (loadProfile e sched p w))) = p_units p"
  by (simp add: loadProfile_def app_applyFnAndResize_sync loadProfile_batch_def setMainUi_def
        setIds_def)

text \<open>
  With \<^verbatim>\<open>window\<close> equal to \<^verbatim>\<open>null\<close> and the container mounted, \<^verbatim>\<open>loadProfile\<close> issues
  one resize request, measured on the state that has the stations and flags of the
  profile.
\<close>

lemma loadProfile_null_resizes_once:
  assumes "p_window p = Null" and "containerRef e = Some h"
  shows "calls (loadProfile e sched p w) =
           calls w @ [WindowInnerSize, WindowScaleFactor,
             WindowSetSize (innerWidth e)
               (of_int (h ((app w)\<lparr>ids := p_stations p,
                              mainUi := (mainUi (app w))\<lparr>showScroll := False,
                                showInput := p_showInput p, showTitlebar := p_showTitlebar p,
                                units := p_units p\<rparr>\<rparr>) (mon w)
                  + (if p_showTitlebar p then (if os e = Macos then 30 else 24) else 0))
                * scaleFactor e)]"
  using assms
  by (simp add: calls_loadProfile calls_resized loadProfile_batch_def setMainUi_def setIds_def
        titlebarOffset_def)

lemma loadProfile_not_null_no_call:
  "p_window p \<noteq> Null \<Longrightarrow> calls (loadProfile e sched p w) = calls w"
  by (simp add: calls_loadProfile)

text \<open>
  C4 at a profile without the property \<^verbatim>\<open>window\<close>. \<^verbatim>\<open>p.window === null\<close> is false for
  it, so the stations are replaced and no resize request is issued; the same profile
  with \<^verbatim>\<open>window\<close> equal to \<^verbatim>\<open>null\<close> gets one.
\<close>

theorem loadProfile_absent_window_never_resizes:
  "p_window exampleProfile = Undefined
   \<and> resizeCalls (calls (loadProfile exampleEnv (0, 0, 0) exampleProfile exampleWorld)) = 0
   \<and> ids (app (loadProfile exampleEnv (0, 0, 0) exampleProfile exampleWorld))
       = [''KSFO'', ''KOAK'']
   \<and> resizeCalls (calls (loadProfile exampleEnv (0, 0, 0)
         (exampleProfile\<lparr>p_window := Null\<rparr>) exampleWorld)) = 1"
  by (simp add: calls_loadProfile app_loadProfile calls_resized exampleProfile_def exampleEnv_def
        exampleWorld_def initialWorld_def resizeCalls_def loadProfile_batch_def setMainUi_def
        setIds_def)

section \<open>Steps that keep an observation of the state\<close>

lemma keepsD: "keeps g k \<Longrightarrow> g (k v) = g v"
  by (simp add: keeps_def)

lemma resume_keeps:
  "list_all (keeps g) ks \<Longrightarrow>
     g (fst (resume n ks w)) = g w \<and> list_all (keeps g) (snd (resume n ks w))"
  by (induction n ks w rule: resume.induct) (simp_all add: keepsD)

lemma settle_keeps: "list_all (keeps g) ks \<Longrightarrow> g (settle ks w) = g w"
  by (induction ks arbitrary: w) (simp_all add: settle_def keepsD)

lemma applyFnAndResize_rest_keeps:
  assumes seg: "list_all (keeps g) pend"
      and ui: "\<And>f. keeps g (setMainUi f)"
      and iss: "\<And>c. keeps g (issue c)"
  shows "g (applyFnAndResize_rest e sched pend w) = g w"
proof -
  obtain k1 k2 k3 where sched: "sched = (k1, k2, k3)" by (cases sched) auto
  obtain w1 p1 where r1: "resume k1 pend w = (w1, p1)" by (cases "resume k1 pend w") auto
  have g1: "g w1 = g w" and s1: "list_all (keeps g) p1"
    using resume_keeps [OF seg, of k1 w] r1 by auto
  show ?thesis
  proof (cases "containerRef e")
    case None
    have "g (settle p1 (setMainUi (\<lambda>u. u\<lparr>showScroll := True\<rparr>) w1)) = g w1"
      by (simp add: settle_keeps [OF s1] keepsD [OF ui])
    then show ?thesis
      using None sched r1 g1
      by (simp add: applyFnAndResize_rest_def resetWindowHeight_rest_def)
  next
    case (Some h)
    obtain w2 p2 where r2: "resume k2 p1 (issue WindowScaleFactor w1) = (w2, p2)"
      by (cases "resume k2 p1 (issue WindowScaleFactor w1)") auto
    have g2: "g w2 = g w" and s2: "list_all (keeps g) p2"
      using resume_keeps [OF s1, of k2 "issue WindowScaleFactor w1"] r2 g1 keepsD [OF iss]
      by auto
    let ?w2' = "issue (WindowSetSize (innerWidth e)
                  (of_int (h (app w2) (mon w2) + titlebarOffset e w2) * scaleFactor e)) w2"
    obtain w3 p3 where r3: "resume k3 p2 ?w2' = (w3, p3)"
      by (cases "resume k3 p2 ?w2'") auto
    have g3: "g w3 = g w" and s3: "list_all (keeps g) p3"
      using resume_keeps [OF s2, of k3 ?w2'] r3 g2 keepsD [OF iss] by auto
    have "g (settle p3 (setMainUi (\<lambda>u. u\<lparr>showScroll := True\<rparr>) w3)) = g w3"
      by (simp add: settle_keeps [OF s3] keepsD [OF ui])
    then show ?thesis
      using Some sched r1 r2 r3 g3
      by (simp add: applyFnAndResize_rest_def resetWindowHeight_rest_def)
  qed
qed

lemma applyFnAndResize_begin_keeps:
  assumes seg: "list_all (keeps g) fn"
      and ui: "\<And>f. keeps g (setMainUi f)"
      and iss: "\<And>c. keeps g (issue c)"
  shows "g (fst (applyFnAndResize_begin e fn w)) = g w
       \<and> list_all (keeps g) (snd (applyFnAndResize_begin e fn w))"
  using seg keepsD [OF ui] keepsD [OF iss]
  by (cases fn)
     (auto simp: applyFnAndResize_begin_def resetWindowHeight_begin_def keepsD
        split: option.splits)

lemma applyFnAndResize_keeps:
  assumes seg: "list_all (keeps g) fn"
      and ui: "\<And>f. keeps g (setMainUi f)"
      and iss: "\<And>c. keeps g (issue c)"
  shows "g (applyFnAndResize e sched fn w) = g w"
proof -
  obtain w1 pend where b: "applyFnAndResize_begin e fn w = (w1, pend)"
    by (cases "applyFnAndResize_begin e fn w") auto
  have g1: "g w1 = g w" and s1: "list_all (keeps g) pend"
    using applyFnAndResize_begin_keeps [OF seg ui iss, of e w] b by auto
  have "g (applyFnAndResize_rest e sched pend w1) = g w1"
    by (rule applyFnAndResize_rest_keeps [OF s1 ui iss])
  then show ?thesis using b g1 by (simp add: applyFnAndResize_def)
qed


section \<open>Accepting METAR reports\<close>

lemma mon_updateMetar:
  "mon (updateMetar result w) =
     (case result of
        Inl err \<Rightarrow> mon w
      | Inr res \<Rightarrow>
          if validId (mon w) \<and> isNewer (obsTime (metar res)) (currentTimestamp (mon w))
          then applyMetar res (mon w) else mon w)"
  by (simp add: updateMetar_def Let_def issue_def setMon_def split: sum.splits)

lemma updateMetar_invalid: "\<not> validId (mon w) \<Longrightarrow> updateMetar result w = w"
  by (simp add: updateMetar_def)


lemma date_le_not_gt: "date_le a b \<Longrightarrow> \<not> date_gt a b"
  by (cases a; cases b) simp_all

lemma timestamp_step:
  assumes "currentTimestamp (mon w) = Some c"
  shows "currentTimestamp (mon (updateMetar result w)) = Some c
       \<or> (\<exists>c'. currentTimestamp (mon (updateMetar result w)) = Some c' \<and> date_gt c' c)"
  using assms
  by (auto simp: mon_updateMetar applyMetar_def isNewer_def split: sum.splits)

lemma date_gt_trans: "date_gt a b \<Longrightarrow> date_gt b c \<Longrightarrow> date_gt a c"
  by (cases a; cases b; cases c) simp_all

lemma timestamp_deliver:
  "currentTimestamp (mon w) = Some c \<Longrightarrow>
     \<exists>c'. currentTimestamp (mon (deliver results w)) = Some c' \<and> (c' = c \<or> date_gt c' c)"
proof (induction results arbitrary: w c)
  case Nil
  then show ?case by simp
next
  case (Cons result results)
  from timestamp_step [OF Cons.prems, of result]
  obtain c1 where c1: "currentTimestamp (mon (updateMetar result w)) = Some c1"
    and rel1: "c1 = c \<or> date_gt c1 c" by auto
  from Cons.IH [OF c1]
  obtain c' where c': "currentTimestamp (mon (deliver results (updateMetar result w))) = Some c'"
    and rel2: "c' = c1 \<or> date_gt c' c1" by auto
  have "c' = c \<or> date_gt c' c"
    using rel1 rel2 date_gt_trans by blast
  then show ?case using c' by simp
qed

text \<open>
  Runs that do not overlap. Taken as one step, \<^verbatim>\<open>updateMetar\<close> applies a fetched report
  (timestamp, altimeter, wind, raw text) when the station is valid and the report is
  newer than the current timestamp or no report was accepted yet; a report that is not
  newer, in particular one with a timestamp less than or equal to the current one,
  leaves the whole state of the monitor as it is. Over every sequence of fetch results
  delivered to runs that follow one another, the accepted timestamp stays or moves to a
  strictly later one.
\<close>

theorem updateMetar_only_advances:
  "(validId (mon w) \<and> isNewer (obsTime (metar res)) (currentTimestamp (mon w)) \<longrightarrow>
      mon (updateMetar (Inr res) w) = applyMetar res (mon w))
   \<and> (\<not> isNewer (obsTime (metar res)) (currentTimestamp (mon w)) \<longrightarrow>
      mon (updateMetar (Inr res) w) = mon w)
   \<and> (currentTimestamp (mon w) = Some c \<and> date_le (obsTime (metar res)) c \<longrightarrow>
      mon (updateMetar (Inr res) w) = mon w)
   \<and> (currentTimestamp (mon w) = Some c \<longrightarrow>
      (\<exists>c'. currentTimestamp (mon (deliver results w)) = Some c' \<and> (c' = c \<or> date_gt c' c)))
   \<and> (currentTimestamp (mon w) = Some (TimeValue t) \<longrightarrow>
      (\<exists>t'. currentTimestamp (mon (deliver results w)) = Some (TimeValue t') \<and> t \<le> t'))"
proof -
  have a: "validId (mon w) \<and> isNewer (obsTime (metar res)) (currentTimestamp (mon w)) \<longrightarrow>
      mon (updateMetar (Inr res) w) = applyMetar res (mon w)"
    by (simp add: mon_updateMetar)
  have b: "\<not> isNewer (obsTime (metar res)) (currentTimestamp (mon w)) \<longrightarrow>
      mon (updateMetar (Inr res) w) = mon w"
    by (simp add: mon_updateMetar)
  have c: "currentTimestamp (mon w) = Some c \<and> date_le (obsTime (metar res)) c \<longrightarrow>
      mon (updateMetar (Inr res) w) = mon w"
    by (auto simp: mon_updateMetar isNewer_def dest: date_le_not_gt)
  have d: "currentTimestamp (mon w) = Some c \<longrightarrow>
      (\<exists>c'. currentTimestamp (mon (deliver results w)) = Some c' \<and> (c' = c \<or> date_gt c' c))"
    using timestamp_deliver by blast
  have e: "currentTimestamp (mon w) = Some (TimeValue t) \<longrightarrow>
      (\<exists>t'. currentTimestamp (mon (deliver results w)) = Some (TimeValue t') \<and> t \<le> t')"
  proof
    assume h: "currentTimestamp (mon w) = Some (TimeValue t)"
    from timestamp_deliver [OF h, of results]
    obtain c' where c': "currentTimestamp (mon (deliver results w)) = Some c'"
      and rel: "c' = TimeValue t \<or> date_gt c' (TimeValue t)" by auto
    from rel show "\<exists>t'. currentTimestamp (mon (deliver results w)) = Some (TimeValue t') \<and> t \<le> t'"
      using c' by (cases c') auto
  qed
  show ?thesis using a b c d e by blast
qed

text \<open>
  A first report of time 2000 is applied; one of time 1500 after it changes nothing;
  after reports of times 1500, 2000, a failed fetch, 3000 and 2500 the timestamp is 3000.
\<close>

theorem updateMetar_only_advances_witness:
  "mon (updateMetar (Inr (exampleReport 2000)) exampleStation)
     = applyMetar (exampleReport 2000) (mon exampleStation)
   \<and> currentTimestamp (mon (updateMetar (Inr (exampleReport 2000)) exampleStation))
     = Some (TimeValue 2000)
   \<and> mon (updateMetar (Inr (exampleReport 1500))
        (updateMetar (Inr (exampleReport 2000)) exampleStation))
     = mon (updateMetar (Inr (exampleReport 2000)) exampleStation)
   \<and> currentTimestamp (mon (deliver [Inr (exampleReport 1500), Inr (exampleReport 2000),
        Inl ''offline'', Inr (exampleReport 3000), Inr (exampleReport 2500)]
        (updateMetar (Inr (exampleReport 2000)) exampleStation)))
     = Some (TimeValue 3000)"
  using updateMetar_only_advances [of exampleStation "exampleReport 2000"]
    updateMetar_only_advances [of "updateMetar (Inr (exampleReport 2000)) exampleStation"
      "exampleReport 1500" "TimeValue 2000"]
  by (simp add: mon_updateMetar exampleStation_def exampleReport_def initialWorld_def
        initialMetar_def isNewer_def applyMetar_def setAltimeter_def)

text \<open>
  The step \<^verbatim>\<open>updateMetar\<close> is the run that is resumed until it ends with no other run
  started in between.
\<close>

lemma updateMetar_segments:
  "loop [TimerFires result, Resumes 0, Resumes 0, Resumes 0, Resumes 0] (w, [])
     = (updateMetar result w, [])"
  by (cases result)
     (simp_all add: updateMetar_def updateMetar_call_def Let_def issue_def setMon_def)

text \<open>
  C1 fails when two runs overlap. The station shows the report of time 2000. Two runs
  are under way at once: the fetch of the older one brings the report of time 2500,
  the fetch of the younger one the report of time 3000. Each run evaluates the guard
  while the timestamp is still 2000, so both pass, and each is then suspended at the
  \<^verbatim>\<open>await\<close> of \<^verbatim>\<open>trace\<close> that stands between the guard and the writes. The younger run
  writes 3000; the older run is still suspended behind its passed guard, and when it
  is resumed it writes 2500: the displayed timestamp goes from 3000 back to 2500,
  although 2500 is not newer than 3000. Delivered to runs that do not overlap, the same
  two reports leave 3000.
\<close>

theorem updateMetar_overlapping_runs_regress:
  "currentTimestamp (mon exampleShown) = Some (TimeValue 2000)
   \<and> validId (mon exampleShown)
   \<and> snd (loop exampleOverlap (exampleShown, []))
       = [(Inr (exampleReport 2500), AwaitNew (exampleReport 2500)),
          (Inr (exampleReport 3000), AwaitNew (exampleReport 3000))]
   \<and> currentTimestamp (mon (fst (loop exampleOverlap (exampleShown, []))))
       = Some (TimeValue 2000)
   \<and> currentTimestamp (mon (fst (loop (exampleOverlap @ [Resumes (Suc 0)]) (exampleShown, []))))
       = Some (TimeValue 3000)
   \<and> snd (loop (exampleOverlap @ [Resumes (Suc 0)]) (exampleShown, []))
       = [(Inr (exampleReport 2500), AwaitNew (exampleReport 2500))]
   \<and> currentTimestamp
        (mon (fst (loop (exampleOverlap @ [Resumes (Suc 0), Resumes 0]) (exampleShown, []))))
       = Some (TimeValue 2500)
   \<and> snd (loop (exampleOverlap @ [Resumes (Suc 0), Resumes 0]) (exampleShown, [])) = []
   \<and> \<not> isNewer (obsTime (metar (exampleReport 2500))) (Some (TimeValue 3000))
   \<and> currentTimestamp
        (mon (deliver [Inr (exampleReport 3000), Inr (exampleReport 2500)] exampleShown))
       = Some (TimeValue 3000)"
  by (simp add: exampleOverlap_def exampleShown_def exampleStation_def exampleReport_def
        initialWorld_def initialMetar_def updateMetar_def updateMetar_call_def isNewer_def
        applyMetar_def setAltimeter_def issue_def setMon_def Let_def)

section \<open>The two panels of a station\<close>

lemma updateAtis_eq:
  "updateAtis e sched result w =
     (if \<not> validId (mon w) then w else applyFnAndResize e sched (updateAtis_fn result) w)"
  by (simp add: updateAtis_def updateAtis_begin_def updateAtis_rest_def applyFnAndResize_def
        split: prod.splits)

lemma updateAtis_invalid: "\<not> validId (mon w) \<Longrightarrow> updateAtis e sched result w = w"
  by (simp add: updateAtis_eq)

text \<open>Observations that no segment of the advisory fetch changes.\<close>

lemma updateAtis_fn_keeps:
  assumes "\<And>c. keeps g (issue c)"
      and "\<And>l ts. keeps g (setMon (\<lambda>m. m\<lparr>atisLetter := l, atisTexts := ts\<rparr>))"
  shows "list_all (keeps g) (updateAtis_fn result)"
  using assms by (cases result) (simp_all add: updateAtis_fn_def keeps_def)

lemma updateAtis_keeps:
  assumes iss: "\<And>c. keeps g (issue c)"
      and ui: "\<And>f. keeps g (setMainUi f)"
      and at: "\<And>l ts. keeps g (setMon (\<lambda>m. m\<lparr>atisLetter := l, atisTexts := ts\<rparr>))"
  shows "g (updateAtis e sched result w) = g w"
  by (simp add: updateAtis_eq applyFnAndResize_keeps [OF updateAtis_fn_keeps [OF iss at] ui iss])

lemma updateAtis_begin_keeps:
  assumes iss: "\<And>c. keeps g (issue c)"
      and ui: "\<And>f. keeps g (setMainUi f)"
      and at: "\<And>l ts. keeps g (setMon (\<lambda>m. m\<lparr>atisLetter := l, atisTexts := ts\<rparr>))"
  shows "g (updateAtis_rest e sched (snd (updateAtis_begin e result w))
            (fst (updateAtis_begin e result w))) = g w"
  using updateAtis_keeps [OF iss ui at, of e sched result w]
  by (simp add: updateAtis_def split: prod.splits)

lemma panels_keeps:
  "keeps panels (issue c)" "keeps panels (setMainUi f)"
  "keeps panels (setMon (\<lambda>m. m\<lparr>atisLetter := l, atisTexts := ts\<rparr>))"
  by (simp_all add: keeps_def panels_def issue_def setMainUi_def setMon_def)

lemma panels_updateAtis: "panels (updateAtis e sched result w) = panels w"
  by (rule updateAtis_keeps) (rule panels_keeps)+

lemma panels_updateMetar: "panels (updateMetar result w) = panels w"
  by (simp add: panels_def mon_updateMetar applyMetar_def split: sum.splits)

lemma mon_toggleShowMetar: "mon (toggleShowMetar e sched w) = toggleShowMetar_fn (mon w)"
  by (simp add: toggleShowMetar_def mon_applyFnAndResize_sync setMon_def setMainUi_def)

lemma mon_toggleShowAtisTexts:
  "mon (toggleShowAtisTexts e sched w) = toggleShowAtisTexts_fn (mon w)"
  by (simp add: toggleShowAtisTexts_def mon_applyFnAndResize_sync setMon_def setMainUi_def)

lemma exclusive_panels: "panels w' = panels w \<Longrightarrow> exclusive w' = exclusive w"
  by (simp add: panels_def exclusive_def)

lemma exclusive_toggleShowMetar: "exclusive (toggleShowMetar e sched w)"
  by (simp add: exclusive_def mon_toggleShowMetar toggleShowMetar_fn_def)

lemma exclusive_toggleShowAtisTexts: "exclusive (toggleShowAtisTexts e sched w)"
  by (simp add: exclusive_def mon_toggleShowAtisTexts toggleShowAtisTexts_fn_def)

lemma exclusive_handle: "exclusive w \<Longrightarrow> exclusive (handle e ev w)"
  by (cases ev)
     (simp_all add: exclusive_toggleShowMetar exclusive_toggleShowAtisTexts
        exclusive_panels [OF panels_updateAtis] exclusive_panels [OF panels_updateMetar])

lemma exclusive_run: "exclusive w \<Longrightarrow> exclusive (run e evs w)"
  by (induction evs arbitrary: w) (simp_all add: exclusive_handle)

lemma panels_fetchAndUpdateStation: "panels (fetchAndUpdateStation lookup w) = panels w"
  by (simp add: fetchAndUpdateStation_def Let_def panels_def issue_def setMon_def
        split: sum.splits)

lemma onMount_eq:
  "onMount e sched lookup mres ares w =
     (if validId (mon (fetchAndUpdateStation lookup w)) then
        updateAtis_rest e sched
          (snd (updateAtis_begin e ares
                  (armMetarTimer e (updateMetar mres (fetchAndUpdateStation lookup w)))))
          (armLetterTimer e
             (fst (updateAtis_begin e ares
                     (armMetarTimer e (updateMetar mres (fetchAndUpdateStation lookup w))))))
      else fetchAndUpdateStation lookup w)"
  by (simp add: onMount_def Let_def armMetarTimer_def armLetterTimer_def getRandomInt_def
        setInterval_def setMon_def split: prod.splits)

lemma onMount_lookup_failed:
  "\<not> validId (mon w) \<Longrightarrow>
     onMount e sched (Inl err) mres ares w =
       issue (LogCall Warn) (setMon (\<lambda>m. m\<lparr>displayId := requestedId m\<rparr>)
         (issue (LookupStationCmd (requestedId (mon w))) (issue (LogCall Debug) w)))"
  by (simp add: onMount_eq fetchAndUpdateStation_def Let_def issue_def setMon_def)

lemma updateAtis_begin_keeps':
  assumes iss: "\<And>c. keeps g (issue c)"
      and ui: "\<And>f. keeps g (setMainUi f)"
      and at: "\<And>l ts. keeps g (setMon (\<lambda>m. m\<lparr>atisLetter := l, atisTexts := ts\<rparr>))"
  shows "g (fst (updateAtis_begin e result w)) = g w
       \<and> (case snd (updateAtis_begin e result w) of
            None \<Rightarrow> True | Some pend \<Rightarrow> list_all (keeps g) pend)"
  using applyFnAndResize_begin_keeps [OF updateAtis_fn_keeps [OF iss at] ui iss, of e result w]
  by (auto simp: updateAtis_begin_def split: prod.splits)

lemma updateAtis_rest_keeps:
  assumes pend: "case pending of None \<Rightarrow> True | Some pend \<Rightarrow> list_all (keeps g) pend"
      and iss: "\<And>c. keeps g (issue c)"
      and ui: "\<And>f. keeps g (setMainUi f)"
  shows "g (updateAtis_rest e sched pending w) = g w"
proof (cases pending)
  case None
  then show ?thesis by (simp add: updateAtis_rest_def)
next
  case (Some p)
  with pend have "list_all (keeps g) p" by simp
  from applyFnAndResize_rest_keeps [OF this ui iss] Some
  show ?thesis by (simp add: updateAtis_rest_def)
qed

lemma panels_onMount: "panels (onMount e sched lookup mres ares w) = panels w"
proof -
  let ?w1 = "fetchAndUpdateStation lookup w"
  let ?w3 = "armMetarTimer e (updateMetar mres ?w1)"
  have arm: "\<And>v. panels (armMetarTimer e v) = panels v"
    "\<And>v. panels (armLetterTimer e v) = panels v"
    by (simp_all add: armMetarTimer_def armLetterTimer_def setMon_def panels_def)
  have b: "panels (fst (updateAtis_begin e ares ?w3)) = panels ?w3"
    and p: "case snd (updateAtis_begin e ares ?w3) of
              None \<Rightarrow> True | Some pend \<Rightarrow> list_all (keeps panels) pend"
    using updateAtis_begin_keeps' [of panels e ares ?w3] panels_keeps by auto
  have "panels (updateAtis_rest e sched (snd (updateAtis_begin e ares ?w3))
           (armLetterTimer e (fst (updateAtis_begin e ares ?w3))))
          = panels (armLetterTimer e (fst (updateAtis_begin e ares ?w3)))"
    by (rule updateAtis_rest_keeps [OF p]) (rule panels_keeps)+
  then show ?thesis
    by (simp add: onMount_eq arm b panels_updateMetar panels_fetchAndUpdateStation)
qed

text \<open>
  C2. After \<^verbatim>\<open>toggleShowMetar\<close> and after \<^verbatim>\<open>toggleShowAtisTexts\<close>, from any state,
  at most one of \<open>showFullMetar\<close> and \<open>showAtisTexts\<close> is set; a toggle that
  shows the full report hides the advisory texts, and a toggle that shows the advisory
  texts hides the full report. Mounting, timer ticks and clicks keep the exclusion, so
  it holds in every state a monitor reaches.
\<close>

theorem panels_mutually_exclusive:
  "\<not> (showFullMetar (mon (toggleShowMetar e sched w))
        \<and> showAtisTexts (mon (toggleShowMetar e sched w)))
   \<and> \<not> (showFullMetar (mon (toggleShowAtisTexts e sched w))
        \<and> showAtisTexts (mon (toggleShowAtisTexts e sched w)))
   \<and> (\<not> showFullMetar (mon w) \<longrightarrow>
        showFullMetar (mon (toggleShowMetar e sched w))
        \<and> \<not> showAtisTexts (mon (toggleShowMetar e sched w)))
   \<and> (\<not> showAtisTexts (mon w) \<and> atisTexts (mon w) \<noteq> [] \<longrightarrow>
        showAtisTexts (mon (toggleShowAtisTexts e sched w))
        \<and> \<not> showFullMetar (mon (toggleShowAtisTexts e sched w)))
   \<and> (\<not> (showFullMetar (mon w) \<and> showAtisTexts (mon w)) \<longrightarrow>
        \<not> (showFullMetar (mon (run e evs (onMount e sched lookup mres ares w)))
           \<and> showAtisTexts (mon (run e evs (onMount e sched lookup mres ares w)))))"
proof -
  have "exclusive w \<longrightarrow> exclusive (run e evs (onMount e sched lookup mres ares w))"
    by (simp add: exclusive_run exclusive_panels [OF panels_onMount])
  then show ?thesis
    by (simp add: exclusive_def mon_toggleShowMetar mon_toggleShowAtisTexts
          toggleShowMetar_fn_def toggleShowAtisTexts_fn_def)
qed

text \<open>
  From the example station, whose panels are hidden: a click shows the full report
  alone, and after mounting, a click, an advisory tick and a click on the letter the two
  panels are not both shown.
\<close>

theorem panels_mutually_exclusive_witness:
  "\<not> showFullMetar (mon exampleStation)
   \<and> showFullMetar (mon (toggleShowMetar exampleEnv (0, 0, 0) exampleStation))
   \<and> \<not> showAtisTexts (mon (toggleShowMetar exampleEnv (0, 0, 0) exampleStation))
   \<and> \<not> (showFullMetar (mon (run exampleEnv
                [ClickMetar (0, 0, 0), AtisTick (1, 1, 1) (Inr exampleAtis), ClickAtis (0, 0, 0)]
                (onMount exampleEnv (0, 0, 0) (Inr exampleLookup) (Inr (exampleReport 2000))
                   (Inr exampleAtis) exampleStation)))
          \<and> showAtisTexts (mon (run exampleEnv
                [ClickMetar (0, 0, 0), AtisTick (1, 1, 1) (Inr exampleAtis), ClickAtis (0, 0, 0)]
                (onMount exampleEnv (0, 0, 0) (Inr exampleLookup) (Inr (exampleReport 2000))
                   (Inr exampleAtis) exampleStation))))"
  using panels_mutually_exclusive [where w = exampleStation and e = exampleEnv
      and sched = "(0, 0, 0)" and lookup = "Inr exampleLookup"
      and mres = "Inr (exampleReport 2000)" and ares = "Inr exampleAtis"
      and evs = "[ClickMetar (0, 0, 0), AtisTick (1, 1, 1) (Inr exampleAtis),
        ClickAtis (0, 0, 0)]"]
  by (simp add: exampleStation_def initialWorld_def initialMetar_def)

section \<open>A station whose lookup fails\<close>

lemma filter_isFetch_resized: "filter isFetch (calls (resized e w)) = filter isFetch (calls w)"
  by (simp add: calls_resized split: option.splits)

lemma timers_resized [simp]: "timers (resized e w) = timers w"
  by (simp add: resized_def issue_def split: option.splits)

lemma idle_toggle:
  "idle (toggleShowMetar e sched w) = idle w" "idle (toggleShowAtisTexts e sched w) = idle w"
  by (simp_all add: idle_def toggleShowMetar_def toggleShowAtisTexts_def applyFnAndResize_sync
        filter_isFetch_resized setMainUi_def setMon_def toggleShowMetar_fn_def
        toggleShowAtisTexts_fn_def)

lemma idle_handle: "\<not> validId (mon w) \<Longrightarrow> idle (handle e ev w) = idle w"
  by (cases ev) (simp_all add: idle_toggle updateMetar_invalid updateAtis_invalid)

lemma idle_run: "\<not> validId (mon w) \<Longrightarrow> idle (run e evs w) = idle w"
proof (induction evs arbitrary: w)
  case Nil
  then show ?case by simp
next
  case (Cons ev evs)
  have "\<not> validId (mon (handle e ev w))"
    using idle_handle [OF Cons.prems, of e ev] Cons.prems by (simp add: idle_def)
  from Cons.IH [OF this] idle_handle [OF Cons.prems, of e ev]
  show ?case by simp
qed

text \<open>
  C7. When the lookup of a station that is not valid fails, \<^verbatim>\<open>onMount\<close> sets
  \<open>displayId\<close> to \<open>requestedId\<close>, leaves \<open>validId\<close> false, arms no timer and
  sets no timer handle, and issues only the debug log, the lookup and the warning.
  From then on \<^verbatim>\<open>updateMetar\<close> and \<^verbatim>\<open>updateAtis\<close> return the state as it is, and no
  sequence of ticks and clicks makes the station valid, arms a timer or requests a
  fetch.
\<close>

theorem lookup_failure_leaves_station_idle:
  fixes w :: "Metar world" and e :: "Metar env" and sched :: schedule and err :: error
    and mres :: "error + FetchMetarResponse" and ares :: "error + FetchAtisResponse"
  defines "w' \<equiv> onMount e sched (Inl err) mres ares w"
  assumes "\<not> validId (mon w)"
  shows "displayId (mon w') = requestedId (mon w)
       \<and> \<not> validId (mon w')
       \<and> timers w' = timers w
       \<and> metarTimerHandle (mon w') = metarTimerHandle (mon w)
       \<and> letterTimerHandle (mon w') = letterTimerHandle (mon w)
       \<and> calls w' = calls w @ [LogCall Debug, LookupStationCmd (requestedId (mon w)), LogCall Warn]
       \<and> updateMetar mres' w' = w'
       \<and> updateAtis e sched' ares' w' = w'
       \<and> \<not> validId (mon (run e evs w'))
       \<and> timers (run e evs w') = timers w
       \<and> filter isFetch (calls (run e evs w')) = filter isFetch (calls w)"
proof -
  have eq: "w' = issue (LogCall Warn) (setMon (\<lambda>m. m\<lparr>displayId := requestedId m\<rparr>)
         (issue (LookupStationCmd (requestedId (mon w))) (issue (LogCall Debug) w)))"
    unfolding w'_def using assms(2) by (rule onMount_lookup_failed)
  have inv: "\<not> validId (mon w')"
    using assms(2) by (simp add: eq issue_def setMon_def)
  have now: "displayId (mon w') = requestedId (mon w) \<and> timers w' = timers w
       \<and> metarTimerHandle (mon w') = metarTimerHandle (mon w)
       \<and> letterTimerHandle (mon w') = letterTimerHandle (mon w)
       \<and> calls w' = calls w @ [LogCall Debug, LookupStationCmd (requestedId (mon w)), LogCall Warn]"
    by (simp add: eq issue_def setMon_def)
  have later: "idle (run e evs w') = idle w'"
    by (rule idle_run [OF inv])
  have fetches: "filter isFetch (calls w') = filter isFetch (calls w)"
    using now by simp
  show ?thesis
    using inv now later fetches
    by (simp add: idle_def updateMetar_invalid updateAtis_invalid)
qed

text \<open>
  A fresh monitor for XXXX whose lookup is rejected shows XXXX, and after a METAR tick,
  an advisory tick and a click it has no timer and has requested no fetch.
\<close>

theorem lookup_failure_leaves_station_idle_witness:
  "\<not> validId (mon (initialWorld (initialMetar ''XXXX'')))
   \<and> displayId (mon (onMount exampleEnv (0, 0, 0) (Inl ''not found'') (Inr (exampleReport 2000))
        (Inr exampleAtis) (initialWorld (initialMetar ''XXXX'')))) = ''XXXX''
   \<and> timers (run exampleEnv [MetarTick (Inr (exampleReport 2000)),
          AtisTick (0, 0, 0) (Inr exampleAtis), ClickMetar (0, 0, 0)]
        (onMount exampleEnv (0, 0, 0) (Inl ''not found'') (Inr (exampleReport 2000))
          (Inr exampleAtis) (initialWorld (initialMetar ''XXXX'')))) = []
   \<and> filter isFetch (calls (run exampleEnv [MetarTick (Inr (exampleReport 2000)),
          AtisTick (0, 0, 0) (Inr exampleAtis), ClickMetar (0, 0, 0)]
        (onMount exampleEnv (0, 0, 0) (Inl ''not found'') (Inr (exampleReport 2000))
          (Inr exampleAtis) (initialWorld (initialMetar ''XXXX''))))) = []
   \<and> calls (onMount exampleEnv (0, 0, 0) (Inl ''not found'') (Inr (exampleReport 2000))
        (Inr exampleAtis) (initialWorld (initialMetar ''XXXX'')))
       = [LogCall Debug, LookupStationCmd ''XXXX'', LogCall Warn]"
proof -
  let ?w = "initialWorld (initialMetar ''XXXX'')"
  have h: "\<not> validId (mon ?w)"
    by (simp add: initialWorld_def initialMetar_def)
  have vals: "requestedId (mon ?w) = ''XXXX''" "timers ?w = []" "calls ?w = []"
    by (simp_all add: initialWorld_def initialMetar_def)
  note t = lookup_failure_leaves_station_idle [OF h, where e = exampleEnv
      and sched = "(0, 0, 0)" and err = "''not found''"
      and mres = "Inr (exampleReport 2000)" and ares = "Inr exampleAtis"
      and mres' = "Inr (exampleReport 2000)" and ares' = "Inr exampleAtis"
      and sched' = "(0, 0, 0)"
      and evs = "[MetarTick (Inr (exampleReport 2000)), AtisTick (0, 0, 0) (Inr exampleAtis),
        ClickMetar (0, 0, 0)]"]
  show ?thesis
    using h t [unfolded vals append_Nil filter.simps] by blast
qed

section \<open>The periods of the two timers\<close>


























section \<open>The altimeter string\<close>

lemma digitChar_all:
  "list_all (\<lambda>d. isDigit (digitChar d) \<and> of_char (digitChar d) = (48 + d :: nat)) [0..<10]"
  by code_simp

lemma digitChar_cases:
  "d < 10 \<Longrightarrow> isDigit (digitChar d) \<and> of_char (digitChar d) = (48 + d :: nat)"
  using digitChar_all by (simp add: list_all_iff)

lemma decimal_digits: "list_all isDigit (decimal n) \<and> decimal n \<noteq> []"
proof (induction n rule: decimal.induct)
  case (1 n)
  show ?case
  proof (cases "n < 10")
    case True
    then show ?thesis by (simp add: decimal.simps [of n] digitChar_cases)
  next
    case False
    then show ?thesis using 1 by (simp add: decimal.simps [of n] digitChar_cases)
  qed
qed

lemma digitValue_append: "digitValue (xs @ ys) = digitValue xs * 10 ^ length ys + digitValue ys"
  by (induction xs) (simp_all add: algebra_simps power_add)

lemma digitValue_decimal: "digitValue (decimal n) = n"
proof (induction n rule: decimal.induct)
  case (1 n)
  show ?case
  proof (cases "n < 10")
    case True
    then show ?thesis by (simp add: decimal.simps [of n] digitChar_cases)
  next
    case False
    then show ?thesis
      using 1 by (simp add: decimal.simps [of n] digitValue_append digitChar_cases)
  qed
qed

lemma toFixed_small:
  assumes "\<bar>x\<bar> < 10 ^ 21"
  shows "toFixed toStr f x =
     (if x < 0 then ''-'' else '''') @
     (if f \<noteq> 0
      then take (length (padded f (decimal (nat (floor (\<bar>x\<bar> * 10 ^ f + 1 / 2))))) - f)
             (padded f (decimal (nat (floor (\<bar>x\<bar> * 10 ^ f + 1 / 2)))))
           @ ''.'' @
           drop (length (padded f (decimal (nat (floor (\<bar>x\<bar> * 10 ^ f + 1 / 2))))) - f)
             (padded f (decimal (nat (floor (\<bar>x\<bar> * 10 ^ f + 1 / 2)))))
      else decimal (nat (floor (\<bar>x\<bar> * 10 ^ f + 1 / 2))))"
  using assms by (simp add: toFixed_def Let_def padded_def)

lemma padded_digits: "list_all isDigit m \<Longrightarrow> list_all isDigit (padded f m)"
  by (simp add: padded_def isDigit_def list_all_iff)

lemma padded_length: "m \<noteq> [] \<Longrightarrow> f < length (padded f m)"
  by (auto simp: padded_def)

lemma toFixed_places:
  assumes "\<bar>x\<bar> < 10 ^ 21" and "f \<noteq> 0"
  shows "\<exists>a b. toFixed toStr f x = (if x < 0 then ''-'' else '''') @ a @ ''.'' @ b
           \<and> a \<noteq> [] \<and> list_all isDigit a \<and> length b = f \<and> list_all isDigit b
           \<and> a @ b = padded f (decimal (nat (floor (\<bar>x\<bar> * 10 ^ f + 1 / 2))))"
proof -
  let ?m = "padded f (decimal (nat (floor (\<bar>x\<bar> * 10 ^ f + 1 / 2))))"
  have d: "list_all isDigit ?m" and l: "f < length ?m"
    using decimal_digits padded_digits padded_length by blast+
  let ?a = "take (length ?m - f) ?m" and ?b = "drop (length ?m - f) ?m"
  have "toFixed toStr f x = (if x < 0 then ''-'' else '''') @ ?a @ ''.'' @ ?b"
    using assms by (simp add: toFixed_small)
  moreover have "?a \<noteq> []" using l by auto
  moreover have "list_all isDigit ?a" "list_all isDigit ?b"
    using d by (auto simp: list_all_iff dest: in_set_takeD in_set_dropD)
  moreover have "length ?b = f" using l by simp
  moreover have "?a @ ?b = ?m" by simp
  ultimately show ?thesis by blast
qed

text \<open>
  The formatting of the two fields of the store. A zero in the field of the selected
  unit gives the empty string. In inHg a non-zero value of magnitude below \<open>10^21\<close>
  gives a sign, at least one digit, a point and exactly two digits, the digits being
  those of the value rounded to hundredths. A non-zero value in the field \<^verbatim>\<open>hpa\<close>
  would give the sign and the digits of the value rounded to an integer, with no point;
  the last section shows that no run of a monitor puts a non-zero value there.
\<close>

theorem altimeterString_by_units:
  "(units (mainUi (app w)) = UnitsInHg \<and> inHg (altimeter (mon w)) = 0
      \<longrightarrow> altimeterString e w = '''')
   \<and> (units (mainUi (app w)) = UnitsHPa \<and> hpa (altimeter (mon w)) = 0
      \<longrightarrow> altimeterString e w = '''')
   \<and> (units (mainUi (app w)) = UnitsInHg \<and> inHg (altimeter (mon w)) = x \<and> x \<noteq> 0
        \<and> \<bar>x\<bar> < 10 ^ 21
      \<longrightarrow> (\<exists>a b. altimeterString e w = (if x < 0 then ''-'' else '''') @ a @ ''.'' @ b
             \<and> a \<noteq> [] \<and> list_all isDigit a \<and> length b = 2 \<and> list_all isDigit b
             \<and> a @ b = padded 2 (decimal (nat (floor (\<bar>x\<bar> * 100 + 1 / 2))))))
   \<and> (units (mainUi (app w)) = UnitsHPa \<and> hpa (altimeter (mon w)) = y \<and> y \<noteq> 0
        \<and> \<bar>y\<bar> < 10 ^ 21
      \<longrightarrow> altimeterString e w
            = (if y < 0 then ''-'' else '''') @ decimal (nat (floor (\<bar>y\<bar> + 1 / 2)))
          \<and> list_all isDigit (decimal (nat (floor (\<bar>y\<bar> + 1 / 2)))))"
proof -
  have z: "(units (mainUi (app w)) = UnitsInHg \<and> inHg (altimeter (mon w)) = 0
      \<longrightarrow> altimeterString e w = '''')
   \<and> (units (mainUi (app w)) = UnitsHPa \<and> hpa (altimeter (mon w)) = 0
      \<longrightarrow> altimeterString e w = '''')"
    by (simp add: altimeterString_def)
  have i: "units (mainUi (app w)) = UnitsInHg \<and> inHg (altimeter (mon w)) = x \<and> x \<noteq> 0
        \<and> \<bar>x\<bar> < 10 ^ 21
      \<longrightarrow> (\<exists>a b. altimeterString e w = (if x < 0 then ''-'' else '''') @ a @ ''.'' @ b
             \<and> a \<noteq> [] \<and> list_all isDigit a \<and> length b = 2 \<and> list_all isDigit b
             \<and> a @ b = padded 2 (decimal (nat (floor (\<bar>x\<bar> * 100 + 1 / 2)))))"
  proof
    assume h: "units (mainUi (app w)) = UnitsInHg \<and> inHg (altimeter (mon w)) = x \<and> x \<noteq> 0
        \<and> \<bar>x\<bar> < 10 ^ 21"
    then have "altimeterString e w = toFixed (numberToString e) 2 x"
      by (simp add: altimeterString_def)
    moreover from h have "\<bar>x\<bar> < 10 ^ 21" by simp
    ultimately show "\<exists>a b. altimeterString e w = (if x < 0 then ''-'' else '''') @ a @ ''.'' @ b
             \<and> a \<noteq> [] \<and> list_all isDigit a \<and> length b = 2 \<and> list_all isDigit b
             \<and> a @ b = padded 2 (decimal (nat (floor (\<bar>x\<bar> * 100 + 1 / 2))))"
      using toFixed_places [of x 2 "numberToString e"] by simp
  qed
  have p: "units (mainUi (app w)) = UnitsHPa \<and> hpa (altimeter (mon w)) = y \<and> y \<noteq> 0
        \<and> \<bar>y\<bar> < 10 ^ 21
      \<longrightarrow> altimeterString e w
            = (if y < 0 then ''-'' else '''') @ decimal (nat (floor (\<bar>y\<bar> + 1 / 2)))
          \<and> list_all isDigit (decimal (nat (floor (\<bar>y\<bar> + 1 / 2))))"
    by (simp add: altimeterString_def toFixed_small decimal_digits)
  show ?thesis using z i p by blast
qed

lemma decimal_2992: "decimal 2992 = ''2992''"
  by code_simp

lemma decimal_1013: "decimal 1013 = ''1013''"
  by code_simp

text \<open>
  For a store made to hold 29.921 in \<^verbatim>\<open>inHg\<close> and 1013 in \<^verbatim>\<open>hpa\<close>, the formatting
  gives 29.92 in inHg and 1013 in hPa, and for the initial zero the empty string in
  either unit.
\<close>

theorem altimeterString_by_units_witness:
  "altimeterString exampleEnv (exampleReading UnitsInHg) = ''29.92''
   \<and> altimeterString exampleEnv (exampleReading UnitsHPa) = ''1013''
   \<and> altimeterString exampleEnv exampleStation = ''''
   \<and> altimeterString exampleEnv (setMainUi (\<lambda>s. s\<lparr>units := UnitsHPa\<rparr>) exampleStation) = ''''"
proof -
  have v: "units (mainUi (app (exampleReading u))) = u"
    "inHg (altimeter (mon (exampleReading u))) = 29921 / 1000"
    "hpa (altimeter (mon (exampleReading u))) = 1013" for u
    by (simp_all add: exampleReading_def setMainUi_def setMon_def)
  have n: "floor (14963 / 5 :: rat) = 2992" "floor (2027 / 2 :: rat) = 1013"
    by (rule floor_unique; simp)+
  have z: "units (mainUi (app exampleStation)) = UnitsInHg"
    "inHg (altimeter (mon exampleStation)) = 0"
    "units (mainUi (app (setMainUi (\<lambda>s. s\<lparr>units := UnitsHPa\<rparr>) exampleStation))) = UnitsHPa"
    "hpa (altimeter (mon (setMainUi (\<lambda>s. s\<lparr>units := UnitsHPa\<rparr>) exampleStation))) = 0"
    by (simp_all add: exampleStation_def initialWorld_def initialApp_def initialMetar_def
          setMainUi_def)
  from altimeterString_by_units [of "exampleReading UnitsInHg" exampleEnv "29921 / 1000" 0]
  obtain a b where ab: "altimeterString exampleEnv (exampleReading UnitsInHg) = a @ ''.'' @ b"
    and lb: "length b = 2" and eq: "a @ b = ''2992''"
    by (auto simp: v n decimal_2992 padded_def)
  from lb eq have "a = ''29'' \<and> b = ''92''"
    by (cases a; cases b) (auto simp: Cons_eq_append_conv append_eq_Cons_conv)
  then have one: "altimeterString exampleEnv (exampleReading UnitsInHg) = ''29.92''"
    using ab by simp
  have two: "altimeterString exampleEnv (exampleReading UnitsHPa) = ''1013''"
    using altimeterString_by_units [of "exampleReading UnitsHPa" exampleEnv 1 1013]
    by (simp add: v n decimal_1013)
  have three: "altimeterString exampleEnv exampleStation = ''''"
    using altimeterString_by_units [of exampleStation exampleEnv 1 1] z by simp
  have four: "altimeterString exampleEnv (setMainUi (\<lambda>s. s\<lparr>units := UnitsHPa\<rparr>) exampleStation) = ''''"
    using altimeterString_by_units
      [of "setMainUi (\<lambda>s. s\<lparr>units := UnitsHPa\<rparr>) exampleStation" exampleEnv 1 1] z by simp
  show ?thesis using one two three four by simp
qed

section \<open>The resize transaction with an asynchronous callback\<close>

lemma updateAtis_begin_valid:
  assumes "validId (mon w)" and "containerRef e = Some h"
  shows "updateAtis_begin e result w =
           (issue WindowInnerSize
              (issue (LogCall Trace) (setMainUi (\<lambda>u. u\<lparr>showScroll := False\<rparr>) w)),
            Some (tl (updateAtis_fn result)))"
  using assms
  by (simp add: updateAtis_begin_def applyFnAndResize_begin_def resetWindowHeight_begin_def
        updateAtis_fn_def)

text \<open>
  C5 at an advisory update. A valid station shows one advisory text, and the fetch
  returns two. When the call of \<^verbatim>\<open>updateAtis\<close> returns, \<^verbatim>\<open>window.innerSize()\<close> has been
  requested, the texts are the old ones and three segments of the callback are pending,
  the first of which requests the fetch. If the fetch settles after the window calls,
  the resize request carries the height of the old text (88.5) while the state that
  results needs 111; only if the callback finishes during the first \<^verbatim>\<open>await\<close> is the new
  height measured.
\<close>

theorem updateAtis_resize_precedes_fetch:
  "calls (fst (updateAtis_begin panelEnv (Inr exampleAtis) exampleListening))
     = [LogCall Trace, WindowInnerSize]
   \<and> atisTexts (mon (fst (updateAtis_begin panelEnv (Inr exampleAtis) exampleListening)))
     = [''JFK ATIS INFO A 1551Z'']
   \<and> map_option length (snd (updateAtis_begin panelEnv (Inr exampleAtis) exampleListening))
     = Some 3
   \<and> calls (updateAtis panelEnv (0, 0, 0) (Inr exampleAtis) exampleListening)
     = [LogCall Trace, WindowInnerSize, WindowScaleFactor, WindowSetSize 300 (177 / 2),
        UpdateAtisCmd ''KJFK'', LogCall Trace]
   \<and> atisTexts (mon (updateAtis panelEnv (0, 0, 0) (Inr exampleAtis) exampleListening))
     = [''JFK ATIS INFO B 1651Z'', ''DEP RWY 31L'']
   \<and> requestedHeight panelEnv (updateAtis panelEnv (0, 0, 0) (Inr exampleAtis) exampleListening)
     = Some 111
   \<and> calls (updateAtis panelEnv (3, 0, 0) (Inr exampleAtis) exampleListening)
     = [LogCall Trace, WindowInnerSize, UpdateAtisCmd ''KJFK'', LogCall Trace,
        WindowScaleFactor, WindowSetSize 300 111]"
proof -
  have v: "validId (mon exampleListening)" "calls exampleListening = []"
    "icaoId (mon exampleListening) = ''KJFK''"
    by (simp_all add: exampleListening_def exampleStation_def initialWorld_def initialMetar_def
          setMon_def)
  have c: "containerRef panelEnv =
      Some (\<lambda>a m. 20 + (if showAtisTexts m then 15 * int (length (atisTexts m)) else 0))"
    by (simp add: panelEnv_def)
  have b: "updateAtis_begin panelEnv (Inr exampleAtis) exampleListening =
           (issue WindowInnerSize
              (issue (LogCall Trace) (setMainUi (\<lambda>u. u\<lparr>showScroll := False\<rparr>) exampleListening)),
            Some (tl (updateAtis_fn (Inr exampleAtis))))"
    by (rule updateAtis_begin_valid [OF v(1) c])
  have one: "calls (fst (updateAtis_begin panelEnv (Inr exampleAtis) exampleListening))
       = [LogCall Trace, WindowInnerSize]
     \<and> atisTexts (mon (fst (updateAtis_begin panelEnv (Inr exampleAtis) exampleListening)))
       = [''JFK ATIS INFO A 1551Z'']
     \<and> map_option length (snd (updateAtis_begin panelEnv (Inr exampleAtis) exampleListening))
       = Some 3"
    by (simp add: b v issue_def setMainUi_def updateAtis_fn_def)
       (simp add: exampleListening_def setMon_def)
  have run0: "updateAtis panelEnv (0, 0, 0) (Inr exampleAtis) exampleListening =
      settle (tl (updateAtis_fn (Inr exampleAtis)))
        (setMainUi (\<lambda>u. u\<lparr>showScroll := True\<rparr>)
          (issue (WindowSetSize 300 (177 / 2))
            (issue WindowScaleFactor
              (issue WindowInnerSize
                (issue (LogCall Trace)
                  (setMainUi (\<lambda>u. u\<lparr>showScroll := False\<rparr>) exampleListening))))))"
    by (simp add: updateAtis_def b updateAtis_rest_def applyFnAndResize_rest_def
          resetWindowHeight_rest_def c titlebarOffset_def issue_def setMainUi_def)
       (simp add: panelEnv_def exampleEnv_def exampleListening_def exampleStation_def
          initialWorld_def initialApp_def initialMetar_def setMon_def)
  have two: "calls (updateAtis panelEnv (0, 0, 0) (Inr exampleAtis) exampleListening)
       = [LogCall Trace, WindowInnerSize, WindowScaleFactor, WindowSetSize 300 (177 / 2),
          UpdateAtisCmd ''KJFK'', LogCall Trace]
     \<and> atisTexts (mon (updateAtis panelEnv (0, 0, 0) (Inr exampleAtis) exampleListening))
       = [''JFK ATIS INFO B 1651Z'', ''DEP RWY 31L'']
     \<and> requestedHeight panelEnv
          (updateAtis panelEnv (0, 0, 0) (Inr exampleAtis) exampleListening) = Some 111"
    by (simp add: run0 settle_def updateAtis_fn_def issue_def setMainUi_def setMon_def v
          requestedHeight_def c titlebarOffset_def)
       (simp add: panelEnv_def exampleEnv_def exampleListening_def exampleStation_def
          initialWorld_def initialApp_def initialMetar_def setMon_def exampleAtis_def)
  have three: "calls (updateAtis panelEnv (3, 0, 0) (Inr exampleAtis) exampleListening)
       = [LogCall Trace, WindowInnerSize, UpdateAtisCmd ''KJFK'', LogCall Trace,
          WindowScaleFactor, WindowSetSize 300 111]"
    by (simp add: updateAtis_def b updateAtis_rest_def applyFnAndResize_rest_def
          resetWindowHeight_rest_def c titlebarOffset_def issue_def setMainUi_def
          updateAtis_fn_def numeral_3_eq_3 settle_def setMon_def v)
       (simp add: panelEnv_def exampleEnv_def exampleListening_def exampleStation_def
          initialWorld_def initialApp_def initialMetar_def setMon_def exampleAtis_def)
  show ?thesis using one two three by simp
qed

lemma extendsD: "extends k \<Longrightarrow> \<exists>rest. calls (k v) = calls v @ rest"
  by (simp add: extends_def)

lemma extends_basic: "extends (issue c)" "extends (setMainUi f)" "extends (setMon h)"
  by (simp_all add: extends_def issue_def setMainUi_def setMon_def)

lemma resume_extends:
  "list_all extends ks \<Longrightarrow>
     (\<exists>rest. calls (fst (resume n ks w)) = calls w @ rest)
     \<and> list_all extends (snd (resume n ks w))"
proof (induction n ks w rule: resume.induct)
  case (3 n k ks w)
  then obtain r1 where r1: "calls (k w) = calls w @ r1"
    using extendsD [of k w] by auto
  from 3 obtain r2 where "calls (fst (resume n ks (k w))) = calls (k w) @ r2"
    and "list_all extends (snd (resume n ks (k w)))" by auto
  then show ?case using r1 by simp
qed simp_all

lemma settle_extends: "list_all extends ks \<Longrightarrow> \<exists>rest. calls (settle ks w) = calls w @ rest"
proof (induction ks arbitrary: w)
  case Nil
  then show ?case by (simp add: settle_def)
next
  case (Cons k ks)
  then obtain r1 where r1: "calls (k w) = calls w @ r1"
    using extendsD [of k w] by auto
  from Cons.prems have "list_all extends ks" by simp
  from Cons.IH [OF this, of "k w"]
  obtain r2 where "calls (settle ks (k w)) = calls (k w) @ r2" by blast
  then show ?case using r1 by (simp add: settle_def)
qed

lemma applyFnAndResize_rest_extends:
  assumes seg: "list_all extends pend"
  shows "\<exists>rest. calls (applyFnAndResize_rest e sched pend w) = calls w @ rest"
proof -
  obtain k1 k2 k3 where sched: "sched = (k1, k2, k3)" by (cases sched) auto
  obtain w1 p1 where r1: "resume k1 pend w = (w1, p1)" by (cases "resume k1 pend w") auto
  obtain x1 where c1: "calls w1 = calls w @ x1" and s1: "list_all extends p1"
    using resume_extends [OF seg, of k1 w] r1 by auto
  show ?thesis
  proof (cases "containerRef e")
    case None
    obtain x2 where "calls (settle p1 (setMainUi (\<lambda>u. u\<lparr>showScroll := True\<rparr>) w1))
        = calls (setMainUi (\<lambda>u. u\<lparr>showScroll := True\<rparr>) w1) @ x2"
      using settle_extends [OF s1] by blast
    then show ?thesis
      using None sched r1 c1
      by (simp add: applyFnAndResize_rest_def resetWindowHeight_rest_def setMainUi_def)
  next
    case (Some h)
    obtain w2 p2 where r2: "resume k2 p1 (issue WindowScaleFactor w1) = (w2, p2)"
      by (cases "resume k2 p1 (issue WindowScaleFactor w1)") auto
    obtain x2 where c2: "calls w2 = calls (issue WindowScaleFactor w1) @ x2"
      and s2: "list_all extends p2"
      using resume_extends [OF s1, of k2 "issue WindowScaleFactor w1"] r2 by auto
    let ?w2' = "issue (WindowSetSize (innerWidth e)
                  (of_int (h (app w2) (mon w2) + titlebarOffset e w2) * scaleFactor e)) w2"
    obtain w3 p3 where r3: "resume k3 p2 ?w2' = (w3, p3)"
      by (cases "resume k3 p2 ?w2'") auto
    obtain x3 where c3: "calls w3 = calls ?w2' @ x3" and s3: "list_all extends p3"
      using resume_extends [OF s2, of k3 ?w2'] r3 by auto
    obtain x4 where "calls (settle p3 (setMainUi (\<lambda>u. u\<lparr>showScroll := True\<rparr>) w3))
        = calls (setMainUi (\<lambda>u. u\<lparr>showScroll := True\<rparr>) w3) @ x4"
      using settle_extends [OF s3] by blast
    then show ?thesis
      using Some sched r1 r2 r3 c1 c2 c3
      by (simp add: applyFnAndResize_rest_def resetWindowHeight_rest_def setMainUi_def
            issue_def)
  qed
qed

text \<open>For every schedule the resize begins before the advisory is requested.\<close>

lemma updateAtis_calls_prefix:
  assumes "validId (mon w)" and "containerRef e = Some h"
  shows "\<exists>rest. calls (updateAtis e sched result w)
            = calls w @ [LogCall Trace, WindowInnerSize] @ rest"
proof -
  let ?w1 = "issue WindowInnerSize
              (issue (LogCall Trace) (setMainUi (\<lambda>u. u\<lparr>showScroll := False\<rparr>) w))"
  have c1: "calls ?w1 = calls w @ [LogCall Trace, WindowInnerSize]"
    by (simp add: issue_def setMainUi_def)
  have fetch: "extends (\<lambda>v. issue (UpdateAtisCmd (icaoId (mon v))) v)"
    and idle: "extends (\<lambda>v :: Metar world. v)"
    by (simp_all add: extends_def issue_def)
  have ext: "list_all extends (tl (updateAtis_fn result))"
    by (cases result) (simp_all add: updateAtis_fn_def extends_basic fetch idle)
  obtain rest where
    "calls (applyFnAndResize_rest e sched (tl (updateAtis_fn result)) ?w1) = calls ?w1 @ rest"
    using applyFnAndResize_rest_extends [OF ext] by blast
  then show ?thesis
    using c1 by (simp add: updateAtis_def updateAtis_begin_valid [OF assms] updateAtis_rest_def)
qed

section \<open>Further properties\<close>

lemma resizeCalls_append: "resizeCalls (xs @ ys) = resizeCalls xs + resizeCalls ys"
  by (simp add: resizeCalls_def)

text \<open>
  With a synchronous callback, whatever the schedule, \<^verbatim>\<open>applyFnAndResize\<close>
  suppresses scrolling, runs the callback, measures the state the callback left and
  issues one resize request when the container is mounted (none otherwise), and ends with
  scrolling restored.
\<close>

theorem resize_transaction_synchronous:
  "applyFnAndResize e sched [f] w =
     setMainUi (\<lambda>u. u\<lparr>showScroll := True\<rparr>)
       (resized e (f (setMainUi (\<lambda>u. u\<lparr>showScroll := False\<rparr>) w)))
   \<and> resizeCalls (calls (applyFnAndResize e sched [f] w)) =
       resizeCalls (calls (f (setMainUi (\<lambda>u. u\<lparr>showScroll := False\<rparr>) w)))
         + (if containerRef e = None then 0 else 1)
   \<and> showScroll (mainUi (app (applyFnAndResize e sched [f] w)))"
  by (simp add: applyFnAndResize_sync calls_resized resizeCalls_append setMainUi_def
        split: option.splits)
     (simp add: resizeCalls_def)

text \<open>
  \<^verbatim>\<open>loadProfile\<close> always installs the stations and flags of the profile. It issues
  one resize request when \<^verbatim>\<open>window\<close> is \<^verbatim>\<open>null\<close> and the container is mounted, and
  none when \<^verbatim>\<open>window\<close> holds a geometry or is absent.
\<close>

theorem loadProfile_resizes_for_null_only:
  "resizeCalls (calls (loadProfile e sched p w)) =
     resizeCalls (calls w) + (if p_window p = Null \<and> containerRef e \<noteq> None then 1 else 0)
   \<and> ids (app (loadProfile e sched p w)) = p_stations p
   \<and> showInput (mainUi (app (loadProfile e sched p w))) = p_showInput p
   \<and> showTitlebar (mainUi (app (loadProfile e sched p w))) = p_showTitlebar p
   \<and> units (mainUi (app (loadProfile e sched p w))) = p_units p"
  by (simp add: app_loadProfile calls_loadProfile calls_resized resizeCalls_append
        loadProfile_batch_def setMainUi_def setIds_def split: option.splits)
     (simp add: resizeCalls_def)

section \<open>The altimeter in hectopascals\<close>

lemma hectopascals_keeps:
  "keeps hectopascals (issue c)" "keeps hectopascals (setMainUi f)"
  "keeps hectopascals (setMon (\<lambda>m. m\<lparr>atisLetter := l, atisTexts := ts\<rparr>))"
  by (simp_all add: keeps_def hectopascals_def issue_def setMainUi_def setMon_def)

lemma hectopascals_updateMetar: "hectopascals (updateMetar result w) = hectopascals w"
  by (simp add: hectopascals_def mon_updateMetar applyMetar_def setAltimeter_def
        split: sum.splits)

lemma hectopascals_updateAtis: "hectopascals (updateAtis e sched result w) = hectopascals w"
  by (rule updateAtis_keeps) (rule hectopascals_keeps)+

lemma hectopascals_toggle:
  "hectopascals (toggleShowMetar e sched w) = hectopascals w"
  "hectopascals (toggleShowAtisTexts e sched w) = hectopascals w"
  by (simp_all add: hectopascals_def mon_toggleShowMetar mon_toggleShowAtisTexts
        toggleShowMetar_fn_def toggleShowAtisTexts_fn_def)

lemma hectopascals_handle: "hectopascals (handle e ev w) = hectopascals w"
  by (cases ev)
     (simp_all add: hectopascals_updateMetar hectopascals_updateAtis hectopascals_toggle)

lemma hectopascals_run: "hectopascals (run e evs w) = hectopascals w"
  by (induction evs arbitrary: w) (simp_all add: hectopascals_handle)

lemma hectopascals_onMount: "hectopascals (onMount e sched lookup mres ares w) = hectopascals w"
proof -
  let ?w1 = "fetchAndUpdateStation lookup w"
  let ?w3 = "armMetarTimer e (updateMetar mres ?w1)"
  have f: "hectopascals ?w1 = hectopascals w"
    by (simp add: fetchAndUpdateStation_def Let_def hectopascals_def issue_def setMon_def
          split: sum.splits)
  have arm: "\<And>v. hectopascals (armMetarTimer e v) = hectopascals v"
    "\<And>v. hectopascals (armLetterTimer e v) = hectopascals v"
    by (simp_all add: armMetarTimer_def armLetterTimer_def setMon_def hectopascals_def)
  have b: "hectopascals (fst (updateAtis_begin e ares ?w3)) = hectopascals ?w3"
    and p: "case snd (updateAtis_begin e ares ?w3) of
              None \<Rightarrow> True | Some pend \<Rightarrow> list_all (keeps hectopascals) pend"
    using updateAtis_begin_keeps' [of hectopascals e ares ?w3] hectopascals_keeps by auto
  have "hectopascals (updateAtis_rest e sched (snd (updateAtis_begin e ares ?w3))
           (armLetterTimer e (fst (updateAtis_begin e ares ?w3))))
          = hectopascals (armLetterTimer e (fst (updateAtis_begin e ares ?w3)))"
    by (rule updateAtis_rest_keeps [OF p]) (rule hectopascals_keeps)+
  then show ?thesis
    by (simp add: onMount_eq arm b hectopascals_updateMetar f)
qed

text \<open>
  C8 fails in hPa. The zero sentinel gives the empty string and a value in inHg is shown
  with two decimals: the example report (29.92 inHg, 1013 hPa), once accepted, reads
  29.92. But \<^verbatim>\<open>altimeterString\<close> reads the field \<^verbatim>\<open>hpa\<close> of the store, and
  \<^verbatim>\<open>setAltimeter(res.altimeter)\<close> merges a response whose fields are \<^verbatim>\<open>inHg\<close> and
  \<^verbatim>\<open>hPa\<close>: the report's 1013 goes to a field \<^verbatim>\<open>hPa\<close> that nothing reads, and
  \<^verbatim>\<open>hpa\<close> keeps its initial zero through the mount and every later tick and click. In
  hPa the string of a mounted station is therefore always empty; for the example report
  it is empty where 1013 was to be shown.
\<close>

theorem altimeter_in_hPa_stays_empty:
  "hpa (altimeter (mon (run e evs (onMount e sched lookup mres ares w))))
     = hpa (altimeter (mon w))
   \<and> altimeterString e
       (setMainUi (\<lambda>u. u\<lparr>units := UnitsHPa\<rparr>)
          (run e evs (onMount e sched lookup mres ares (initialWorld (initialMetar rid)))))
     = ''''
   \<and> dto_hPa (res_altimeter (exampleReport 2000)) = 1013
   \<and> hPa (altimeter (mon (updateMetar (Inr (exampleReport 2000)) exampleStation))) = Some 1013
   \<and> altimeterString exampleEnv
       (setMainUi (\<lambda>u. u\<lparr>units := UnitsHPa\<rparr>)
          (updateMetar (Inr (exampleReport 2000)) exampleStation)) = ''''
   \<and> altimeterString exampleEnv
       (setMainUi (\<lambda>u. u\<lparr>units := UnitsInHg\<rparr>)
          (updateMetar (Inr (exampleReport 2000)) exampleStation)) = ''29.92''
   \<and> altimeterString exampleEnv
       (setMainUi (\<lambda>u. u\<lparr>units := UnitsHPa\<rparr>)
          (run exampleEnv [MetarTick (Inr (exampleReport 3000))] exampleMounted)) = ''''
   \<and> altimeterString exampleEnv (setMainUi (\<lambda>u. u\<lparr>units := UnitsInHg\<rparr>) exampleStation)
     = ''''"
proof -
  have a: "hectopascals (run e evs (onMount e sched lookup mres ares v)) = hectopascals v" for v
    by (simp add: hectopascals_run hectopascals_onMount)
  have i: "hectopascals (initialWorld (initialMetar rid)) = 0" for rid
    by (simp add: hectopascals_def initialWorld_def initialMetar_def)
  have s: "hectopascals v = 0 \<Longrightarrow>
      altimeterString e (setMainUi (\<lambda>u. u\<lparr>units := UnitsHPa\<rparr>) v) = ''''" for v e
    by (simp add: altimeterString_def setMainUi_def hectopascals_def)
  have x: "hectopascals (updateMetar (Inr (exampleReport 2000)) exampleStation) = 0"
    by (simp add: hectopascals_updateMetar)
       (simp add: hectopascals_def exampleStation_def initialWorld_def initialMetar_def)
  have y: "hPa (altimeter (mon (updateMetar (Inr (exampleReport 2000)) exampleStation)))
      = Some 1013"
    by (simp add: mon_updateMetar applyMetar_def setAltimeter_def exampleReport_def isNewer_def
          exampleStation_def initialWorld_def initialMetar_def)
  have m: "hectopascals (run exampleEnv [MetarTick (Inr (exampleReport 3000))] exampleMounted)
      = 0"
    unfolding exampleMounted_def by (simp only: hectopascals_run hectopascals_onMount i)
  have n: "floor (5985 / 2 :: rat) = 2992"
    by (rule floor_unique; simp)
  have "altimeterString exampleEnv
       (setMainUi (\<lambda>u. u\<lparr>units := UnitsInHg\<rparr>)
          (updateMetar (Inr (exampleReport 2000)) exampleStation))
      = toFixed (numberToString (exampleEnv :: Metar env)) 2 (2992 / 100)"
    by (simp add: altimeterString_def setMainUi_def mon_updateMetar applyMetar_def
          setAltimeter_def exampleReport_def isNewer_def exampleStation_def initialWorld_def
          initialMetar_def)
  also have "\<dots> = ''29.92''"
    by (simp add: toFixed_def n decimal_2992 Let_def)
  finally have t: "altimeterString exampleEnv
       (setMainUi (\<lambda>u. u\<lparr>units := UnitsInHg\<rparr>)
          (updateMetar (Inr (exampleReport 2000)) exampleStation)) = ''29.92''" .
  have z: "altimeterString exampleEnv (setMainUi (\<lambda>u. u\<lparr>units := UnitsInHg\<rparr>) exampleStation)
      = ''''"
    by (simp add: altimeterString_def setMainUi_def exampleStation_def initialWorld_def
          initialMetar_def)
  have d: "dto_hPa (res_altimeter (exampleReport 2000)) = 1013"
    by (simp add: exampleReport_def)
  show ?thesis
    using a [of w] s [OF a [of "initialWorld (initialMetar rid)", unfolded i]] s [OF x] s [OF m]
      y t z d
    by (simp add: hectopascals_def)
qed

end
